theory Spec2Isabelle
  imports Complex_Main "HOL-Library.AList"
begin

section \<open>Balloon Pop Ultimate: the simulation core\<close>

text \<open>
  A shallow embedding of \<^verbatim>\<open>types/game.ts\<close>, \<^verbatim>\<open>Balloon.ts\<close>, \<^verbatim>\<open>Particle.ts\<close>,
  \<^verbatim>\<open>PowerUpManager.ts\<close> and \<^verbatim>\<open>GameEngine.ts\<close>.

  Conventions.
  \<^item> A JavaScript \<^verbatim>\<open>number\<close> that counts (score, lives, combo count, point values) is an
    \<open>int\<close>; one that measures (time, position, speed, probability) is a \<open>real\<close>, so
    the arithmetic is the exact one, without the rounding of IEEE doubles. The
    exceptions are the product under \<^verbatim>\<open>Math.floor\<close> that indexes a table and the sum
    of the two chances in \<open>selectBalloonType\<close>, where the rounding decides the index and
    the branch: they are \<open>double_times\<close> and \<open>double_plus\<close> of the runtime.
  \<^item> Mutation is explicit state passing: a method takes the object and returns it updated.
  \<^item> \<^verbatim>\<open>performance.now()\<close> and \<^verbatim>\<open>Math.random()\<close> are read from a \<open>Runtime\<close>: the
    \<open>n\<close>-th reading of the clock and the \<open>n\<close>-th random draw since the engine was
    constructed. The engine counts its readings (\<open>clockReads\<close>, \<open>randomDraws\<close>).
  \<^item> A callback of \<^verbatim>\<open>GameEvents\<close> is an entry appended to the log \<open>events\<close>; the callbacks
    of the power-up manager are returned by its methods, in the order they are invoked.
\<close>

subsection \<open>types/game.ts\<close>

datatype difficulty = Easy | Medium | Hard

datatype powerup_type = Slow | Multiplier | Freeze | Magnet | Defuser

text \<open>\<^verbatim>\<open>BalloonType['type']\<close>: the four plain categories and the five of \<^verbatim>\<open>PowerUp['type']\<close>.\<close>

datatype balloon_type = Normal | Special | Heart | Bomb | PowerUpBalloon powerup_type

type_synonym rgb = "int \<times> int \<times> int"

record GameState =
  running :: bool
  score :: int
  highScore :: int
  lives :: int
  level :: int
  combo :: int
  gameStarted :: bool
  gameOver :: bool

record Balloon =
  b_id :: real
  b_x :: real
  b_y :: real
  b_r :: real
  b_speed :: real
  b_type :: balloon_type
  b_birth :: real
  b_lifespan :: real
  b_vx :: real
  b_vy :: real
  b_color :: rgb
  b_xOffset :: real

record Particle =
  p_id :: real
  p_x :: real
  p_y :: real
  p_size :: real
  p_vx :: real
  p_vy :: real
  p_color :: rgb
  p_alpha :: real
  p_life :: real
  p_maxLife :: real
  p_gravity :: real
  p_friction :: real

record PowerUp =
  pu_type :: powerup_type
  duration :: real
  active :: bool
  timeLeft :: real

record GameConfig =
  spawnRate :: "difficulty \<Rightarrow> real"
  baseSpeed :: "difficulty \<Rightarrow> real"
  bombChance :: "difficulty \<Rightarrow> real"
  powerupChance :: "difficulty \<Rightarrow> real"
  powerupDuration :: real
  maxLives :: int
  comboTimeout :: real

text \<open>\<^verbatim>\<open>Partial<GameConfig>\<close>: every key may be missing.\<close>

record PartialGameConfig =
  spawnRate_opt :: "(difficulty \<Rightarrow> real) option"
  baseSpeed_opt :: "(difficulty \<Rightarrow> real) option"
  bombChance_opt :: "(difficulty \<Rightarrow> real) option"
  powerupChance_opt :: "(difficulty \<Rightarrow> real) option"
  powerupDuration_opt :: "real option"
  maxLives_opt :: "int option"
  comboTimeout_opt :: "real option"

record GameDimensions =
  width :: real
  height :: real
  dpr :: real

datatype input_type = Click | Touch

record InputEvent =
  ev_x :: real
  ev_y :: real
  ev_type :: input_type
  ev_timestamp :: real

text \<open>The callbacks of \<^verbatim>\<open>GameEvents\<close>, as entries of a log.\<close>

datatype GameEvent =
    onBalloonPop Balloon int
  | onPowerUpActivate PowerUp
  | onLifeLost
  | onLifeGained
  | onGameOver int
  | onCombo int
  | onScoreUpdate int int

text \<open>\<^verbatim>\<open>BALLOON_TYPES[type].points\<close>.\<close>

fun BALLOON_TYPES_points :: "balloon_type \<Rightarrow> int" where
  "BALLOON_TYPES_points Normal = 1"
| "BALLOON_TYPES_points Special = 5"
| "BALLOON_TYPES_points Heart = 0"
| "BALLOON_TYPES_points Bomb = - 1"
| "BALLOON_TYPES_points (PowerUpBalloon t) = 10"

definition DEFAULT_GAME_CONFIG :: GameConfig where
  "DEFAULT_GAME_CONFIG =
     \<lparr> spawnRate = (\<lambda>d. case d of Easy \<Rightarrow> 600 | Medium \<Rightarrow> 400 | Hard \<Rightarrow> 250),
       baseSpeed = (\<lambda>d. case d of Easy \<Rightarrow> 0.8 | Medium \<Rightarrow> 1.2 | Hard \<Rightarrow> 1.8),
       bombChance = (\<lambda>d. case d of Easy \<Rightarrow> 0.05 | Medium \<Rightarrow> 0.1 | Hard \<Rightarrow> 0.15),
       powerupChance = (\<lambda>d. case d of Easy \<Rightarrow> 0.05 | Medium \<Rightarrow> 0.08 | Hard \<Rightarrow> 0.1),
       powerupDuration = 10,
       maxLives = 3,
       comboTimeout = 1000 \<rparr>"

subsection \<open>The ambient runtime\<close>

text \<open>
  \<open>double_times x y\<close> and \<open>double_plus x y\<close> are the product and the sum of \<open>x\<close> and
  \<open>y\<close> as the program computes them, doubles; nothing is fixed about them here, a
  theorem that depends on them says what it needs of them.
\<close>

record Runtime =
  performance_now :: "nat \<Rightarrow> real"
  Math_random :: "nat \<Rightarrow> real"
  double_times :: "real \<Rightarrow> real \<Rightarrow> real"
  double_plus :: "real \<Rightarrow> real \<Rightarrow> real"

text \<open>\<^verbatim>\<open>a % m\<close> on numbers: the remainder has the sign of the dividend.\<close>

definition js_rem :: "real \<Rightarrow> real \<Rightarrow> real" where
  "js_rem a m =
     (let q = a / m in a - m * of_int (if 0 \<le> q then \<lfloor>q\<rfloor> else \<lceil>q\<rceil>))"

text \<open>\<^verbatim>\<open>Math.round\<close>: to the nearest integer, a half upwards.\<close>

definition Math_round :: "real \<Rightarrow> int" where
  "Math_round v = \<lfloor>v + 1 / 2\<rfloor>"

text \<open>\<^verbatim>\<open>xs.splice(i, 1)\<close>: nothing is removed when \<open>i\<close> is past the end.\<close>

definition splice1 :: "nat \<Rightarrow> 'a list \<Rightarrow> 'a list" where
  "splice1 i xs = take i xs @ drop (Suc i) xs"

subsection \<open>Balloon.ts\<close>

definition randomFloat :: "real \<Rightarrow> real \<Rightarrow> real \<Rightarrow> real" where
  "randomFloat lo hi u = lo + u * (hi - lo)"

definition hsvToRgb :: "real \<Rightarrow> real \<Rightarrow> real \<Rightarrow> rgb" where
  "hsvToRgb h s v =
     (let f = (\<lambda>n. let k = js_rem (n + h / 60) 6
                    in v - v * s * max (min (min k (4 - k)) 1) 0)
      in (Math_round (f 5 * 255), Math_round (f 3 * 255), Math_round (f 1 * 255)))"

text \<open>\<open>generateColor\<close> takes the draws \<open>k\<close>, \<open>k + 1\<close>, \<open>k + 2\<close>.\<close>

definition generateColor :: "Runtime \<Rightarrow> nat \<Rightarrow> rgb" where
  "generateColor rt k =
     (let hue = randomFloat 200 300 (Math_random rt k);
          saturation = randomFloat 0.5 1 (Math_random rt (k + 1));
          val = randomFloat 0.8 1 (Math_random rt (k + 2))
      in hsvToRgb hue saturation val)"

text \<open>
  The constructor: the clock is read once (reading \<open>c\<close>), and six numbers are drawn
  (\<open>k\<close> to \<open>k + 5\<close>): the id, \<open>vx\<close>, the three of the colour, \<open>xOffset\<close>. The id is the
  draw itself; the source renders it in base 36.
\<close>

definition Balloon_new ::
  "Runtime \<Rightarrow> nat \<Rightarrow> nat \<Rightarrow> real \<Rightarrow> real \<Rightarrow> real \<Rightarrow> real \<Rightarrow> balloon_type \<Rightarrow> Balloon" where
  "Balloon_new rt c k x y r speed ty =
     \<lparr> b_id = Math_random rt k,
       b_x = x,
       b_y = y,
       b_r = r,
       b_speed = speed,
       b_type = ty,
       b_birth = performance_now rt c,
       b_lifespan = 50000,
       b_vx = randomFloat (- 0.2) 0.2 (Math_random rt (k + 1)),
       b_vy = - speed,
       b_color = generateColor rt (k + 2),
       b_xOffset = randomFloat (- 50) 50 (Math_random rt (k + 5)) \<rparr>"

text \<open>
  \<open>Balloon.update\<close> returns the balloon and the number of clock readings so far: the
  clock is read (reading \<open>c\<close>) only in the branch of the normal movement.
\<close>

definition Balloon_update ::
  "Runtime \<Rightarrow> nat \<Rightarrow> real \<Rightarrow> bool \<Rightarrow> bool \<Rightarrow> bool \<Rightarrow> real \<Rightarrow> real \<Rightarrow> Balloon \<Rightarrow> Balloon \<times> nat" where
  "Balloon_update rt c deltaTime freezeActive slowMotionActive magnetActive canvasWidth canvasHeight b =
     (if freezeActive then (b, c)
      else
        let speedMultiplier = (if slowMotionActive then 0.5 else 1 :: real);
            frameRate = (60 :: real)
        in if magnetActive then
             let centerX = canvasWidth / 2;
                 centerY = canvasHeight / 2;
                 dx = centerX - b_x b;
                 dy = centerY - b_y b;
                 distance = sqrt (dx * dx + dy * dy)
             in if distance > 10 then
                  let magnetForce = (0.5 :: real);
                      b1 = b\<lparr>b_x := b_x b + (dx / distance) * b_speed b * magnetForce * speedMultiplier * deltaTime * frameRate\<rparr>;
                      b2 = b1\<lparr>b_y := b_y b1 + (dy / distance) * b_speed b1 * magnetForce * speedMultiplier * deltaTime * frameRate\<rparr>
                  in (b2, c)
                else (b, c)
           else
             let b1 = b\<lparr>b_y := b_y b + b_vy b * speedMultiplier * deltaTime * frameRate\<rparr>;
                 b2 = b1\<lparr>b_x := b_x b1 + b_vx b1 * speedMultiplier * deltaTime * frameRate\<rparr>;
                 time = (performance_now rt c - b_birth b2) / 500;
                 b3 = b2\<lparr>b_x := b_x b2 + sin time * 0.5\<rparr>
             in (b3, Suc c))"

definition isOffScreen :: "Balloon \<Rightarrow> real \<Rightarrow> bool" where
  "isOffScreen b canvasHeight = (b_y b < - b_r b)"

text \<open>\<open>isExpired\<close> reads the clock once: \<open>now\<close> is that reading.\<close>

definition isExpired :: "real \<Rightarrow> Balloon \<Rightarrow> bool" where
  "isExpired now b = (now - b_birth b > b_lifespan b)"

definition containsPoint :: "Balloon \<Rightarrow> real \<Rightarrow> real \<Rightarrow> bool" where
  "containsPoint b x y =
     (let distance = sqrt ((x - b_x b) ^ 2 + (y - b_y b) ^ 2) in distance \<le> b_r b)"

definition getPoints :: "Balloon \<Rightarrow> int" where
  "getPoints b = BALLOON_TYPES_points (b_type b)"

definition powerupTypes :: "balloon_type list" where
  "powerupTypes =
     [PowerUpBalloon Slow, PowerUpBalloon Multiplier, PowerUpBalloon Freeze,
      PowerUpBalloon Magnet, PowerUpBalloon Defuser, Heart, Special]"

text \<open>
  \<open>selectBalloonType\<close> returns the type and the number of draws so far: the first draw
  is \<open>k\<close>, the second one (\<open>k + 1\<close>) is made only in the power-up branch. The index is
  the floor of the product of that draw and the length of \<open>powerupTypes\<close>, computed in
  doubles; for a draw in \<open>[0, 1)\<close>, all \<^verbatim>\<open>Math.random\<close> returns, it is below that length.
\<close>

definition selectBalloonType :: "Runtime \<Rightarrow> nat \<Rightarrow> real \<Rightarrow> real \<Rightarrow> balloon_type \<times> nat" where
  "selectBalloonType rt k bombChance' powerupChance' =
     (let random = Math_random rt k
      in if random < bombChance' then (Bomb, k + 1)
         else if random < double_plus rt bombChance' powerupChance' then
           (powerupTypes !
              nat \<lfloor>double_times rt (Math_random rt (k + 1)) (real (length powerupTypes))\<rfloor>,
            k + 2)
         else (Normal, k + 1))"

text \<open>
  \<open>Balloon.create\<close>: the draws \<open>k\<close>, \<open>k + 1\<close>, \<open>k + 2\<close> give the radius, the position and
  the speed; then the type is selected and the balloon constructed.
\<close>

definition Balloon_create ::
  "Runtime \<Rightarrow> nat \<Rightarrow> nat \<Rightarrow> real \<Rightarrow> real \<Rightarrow> real \<Rightarrow> real \<Rightarrow> real \<Rightarrow> Balloon \<times> nat" where
  "Balloon_create rt c k canvasWidth canvasHeight baseSpeed' bombChance' powerupChance' =
     (let r = 25 + Math_random rt k * 20;
          x = r + Math_random rt (k + 1) * (canvasWidth - 2 * r);
          y = canvasHeight + r;
          speed = baseSpeed' + (Math_random rt (k + 2) - 0.5) * 0.4;
          (ty, k') = selectBalloonType rt (k + 3) bombChance' powerupChance'
      in (Balloon_new rt c k' x y r speed ty, k' + 6))"

subsection \<open>PowerUpManager.ts\<close>

text \<open>
  \<open>activePowerUps\<close>, a \<^verbatim>\<open>Map\<close>, is an association list in insertion order:
  \<^verbatim>\<open>set\<close> is \<open>AList.update\<close> (a new key goes to the end), \<^verbatim>\<open>delete\<close> is \<open>AList.delete\<close>,
  \<^verbatim>\<open>get\<close> is \<open>map_of\<close>. The manager has no other field.
\<close>

type_synonym PowerUpManager = "(powerup_type \<times> PowerUp) list"

datatype PowerUpCallback = onActivate PowerUp | onDeactivate PowerUp | onUpdate PowerUp

definition PowerUpManager_new :: PowerUpManager where
  "PowerUpManager_new = []"

definition deactivatePowerUp :: "powerup_type \<Rightarrow> PowerUpManager \<Rightarrow> PowerUpManager \<times> PowerUpCallback list" where
  "deactivatePowerUp ty m =
     (case map_of m ty of
        Some powerUp \<Rightarrow>
          (AList.delete ty m, [onDeactivate (powerUp\<lparr>active := False, timeLeft := 0\<rparr>)])
      | None \<Rightarrow> (m, []))"

definition activatePowerUp ::
  "powerup_type \<Rightarrow> real \<Rightarrow> PowerUpManager \<Rightarrow> PowerUpManager \<times> PowerUpCallback list" where
  "activatePowerUp ty duration' m =
     (let (m1, cs) = (if map_of m ty \<noteq> None then deactivatePowerUp ty m else (m, []));
          powerUp = \<lparr> pu_type = ty, duration = duration', active = True, timeLeft = duration' \<rparr>
      in (AList.update ty powerUp m1, cs @ [onActivate powerUp]))"

text \<open>
  \<open>update\<close>: every entry is aged in insertion order (\<open>agePowerUp\<close> is the body of
  the loop, without its callback) and its callback invoked; the entries that ran out
  are deleted after the loop.
\<close>

definition agePowerUp :: "real \<Rightarrow> PowerUp \<Rightarrow> PowerUp" where
  "agePowerUp deltaTime powerUp =
     (let p1 = powerUp\<lparr>timeLeft := timeLeft powerUp - deltaTime\<rparr>
      in if timeLeft p1 \<le> 0 then p1\<lparr>active := False\<rparr> else p1)"

definition PowerUpManager_update :: "real \<Rightarrow> PowerUpManager \<Rightarrow> PowerUpManager \<times> PowerUpCallback list" where
  "PowerUpManager_update deltaTime m =
     (let aged = map (\<lambda>(ty, powerUp). (ty, agePowerUp deltaTime powerUp)) m;
          cs = map (\<lambda>(ty, powerUp).
                   if timeLeft powerUp \<le> 0 then onDeactivate powerUp else onUpdate powerUp) aged;
          toRemove = map fst (filter (\<lambda>(ty, powerUp). timeLeft powerUp \<le> 0) aged)
      in (foldl (\<lambda>al ty. AList.delete ty al) aged toRemove, cs))"

definition isActive :: "PowerUpManager \<Rightarrow> powerup_type \<Rightarrow> bool" where
  "isActive m ty = (case map_of m ty of Some powerUp \<Rightarrow> active powerUp | None \<Rightarrow> False)"

definition getTimeLeft :: "PowerUpManager \<Rightarrow> powerup_type \<Rightarrow> real" where
  "getTimeLeft m ty = (case map_of m ty of Some powerUp \<Rightarrow> timeLeft powerUp | None \<Rightarrow> 0)"

definition getActivePowerUps :: "PowerUpManager \<Rightarrow> PowerUp list" where
  "getActivePowerUps m = filter active (map snd m)"

definition clearAll :: "PowerUpManager \<Rightarrow> PowerUpManager \<times> PowerUpCallback list" where
  "clearAll m = ([], map (\<lambda>powerUp. onDeactivate (powerUp\<lparr>active := False\<rparr>)) (map snd m))"

definition getScoreMultiplier :: "PowerUpManager \<Rightarrow> int" where
  "getScoreMultiplier m = (if isActive m Multiplier then 2 else 1)"

definition isFreezeActive :: "PowerUpManager \<Rightarrow> bool" where
  "isFreezeActive m = isActive m Freeze"

definition isMagnetActive :: "PowerUpManager \<Rightarrow> bool" where
  "isMagnetActive m = isActive m Magnet"

definition isDefuserActive :: "PowerUpManager \<Rightarrow> bool" where
  "isDefuserActive m = isActive m Defuser"

subsection \<open>Particle.ts\<close>

text \<open>The constructor draws five numbers (\<open>k\<close> to \<open>k + 4\<close>): id, size, \<open>vx\<close>, \<open>vy\<close>, \<open>maxLife\<close>.\<close>

definition Particle_new :: "Runtime \<Rightarrow> nat \<Rightarrow> real \<Rightarrow> real \<Rightarrow> rgb \<Rightarrow> Particle" where
  "Particle_new rt k x y color =
     \<lparr> p_id = Math_random rt k,
       p_x = x,
       p_y = y,
       p_size = 2 + Math_random rt (k + 1) * 4,
       p_vx = (Math_random rt (k + 2) - 0.5) * 4,
       p_vy = (Math_random rt (k + 3) - 0.5) * 4,
       p_color = color,
       p_alpha = 1,
       p_life = 1,
       p_maxLife = 60 + Math_random rt (k + 4) * 60,
       p_gravity = 0.1,
       p_friction = 0.98 \<rparr>"

definition Particle_update :: "real \<Rightarrow> Particle \<Rightarrow> Particle" where
  "Particle_update deltaTime p =
     (let frameRate = (60 :: real);
          dt = deltaTime * frameRate;
          p1 = p\<lparr>p_x := p_x p + p_vx p * dt\<rparr>;
          p2 = p1\<lparr>p_y := p_y p1 + p_vy p1 * dt\<rparr>;
          p3 = p2\<lparr>p_vy := p_vy p2 + p_gravity p2 * dt\<rparr>;
          p4 = p3\<lparr>p_vx := p_vx p3 * p_friction p3\<rparr>;
          p5 = p4\<lparr>p_vy := p_vy p4 * p_friction p4\<rparr>;
          p6 = p5\<lparr>p_life := p_life p5 - dt\<rparr>
      in p6\<lparr>p_alpha := max 0 (p_life p6 / p_maxLife p6)\<rparr>)"

definition isDead :: "Particle \<Rightarrow> bool" where
  "isDead p = (p_life p \<le> 0 \<or> p_alpha p \<le> 0)"

text \<open>The particle system has the one field \<open>particles\<close>.\<close>

type_synonym ParticleSystem = "Particle list"

text \<open>\<open>addParticles\<close> returns the particles and the number of draws so far.\<close>

fun addParticles ::
  "Runtime \<Rightarrow> nat \<Rightarrow> real \<Rightarrow> real \<Rightarrow> rgb \<Rightarrow> nat \<Rightarrow> ParticleSystem \<Rightarrow> ParticleSystem \<times> nat" where
  "addParticles rt k x y color 0 ps = (ps, k)"
| "addParticles rt k x y color (Suc n) ps =
     addParticles rt (k + 5) x y color n (ps @ [Particle_new rt k x y color])"

text \<open>
  \<open>ParticleSystem.update\<close>: the loop runs from the last index down; \<open>i\<close> is the number
  of indices still to visit.
\<close>

fun ParticleSystem_update_loop :: "real \<Rightarrow> nat \<Rightarrow> ParticleSystem \<Rightarrow> ParticleSystem" where
  "ParticleSystem_update_loop deltaTime 0 ps = ps"
| "ParticleSystem_update_loop deltaTime (Suc i) ps =
     (let particle = Particle_update deltaTime (ps ! i);
          ps1 = ps[i := particle]
      in ParticleSystem_update_loop deltaTime i
           (if isDead particle then splice1 i ps1 else ps1))"

definition ParticleSystem_update :: "real \<Rightarrow> ParticleSystem \<Rightarrow> ParticleSystem" where
  "ParticleSystem_update deltaTime ps = ParticleSystem_update_loop deltaTime (length ps) ps"

definition comboColors :: "rgb list" where
  "comboColors = [(255, 215, 0), (255, 165, 0), (255, 20, 147), (0, 255, 255)]"

text \<open>
  One particle of \<open>addComboExplosion\<close> takes ten draws (\<open>k\<close> to \<open>k + 9\<close>): the colour,
  the five of the constructor, the angle, the speed, the size and \<open>maxLife\<close>.
\<close>

definition comboParticle :: "Runtime \<Rightarrow> nat \<Rightarrow> real \<Rightarrow> real \<Rightarrow> Particle" where
  "comboParticle rt k x y =
     (let color = comboColors !
                    nat \<lfloor>double_times rt (Math_random rt k) (real (length comboColors))\<rfloor>;
          particle = Particle_new rt (k + 1) x y color;
          angle = Math_random rt (k + 6) * pi * 2;
          speed = 2 + Math_random rt (k + 7) * 4
      in particle\<lparr> p_vx := cos angle * speed,
                   p_vy := sin angle * speed,
                   p_size := 3 + Math_random rt (k + 8) * 4,
                   p_maxLife := 60 + Math_random rt (k + 9) * 60 \<rparr>)"

fun addComboExplosion_loop ::
  "Runtime \<Rightarrow> nat \<Rightarrow> real \<Rightarrow> real \<Rightarrow> nat \<Rightarrow> ParticleSystem \<Rightarrow> ParticleSystem \<times> nat" where
  "addComboExplosion_loop rt k x y 0 ps = (ps, k)"
| "addComboExplosion_loop rt k x y (Suc n) ps =
     addComboExplosion_loop rt (k + 10) x y n (ps @ [comboParticle rt k x y])"

definition addComboExplosion ::
  "Runtime \<Rightarrow> nat \<Rightarrow> real \<Rightarrow> real \<Rightarrow> int \<Rightarrow> ParticleSystem \<Rightarrow> ParticleSystem \<times> nat" where
  "addComboExplosion rt k x y comboCount' ps =
     (let particleCount = min 30 (10 + comboCount' * 3)
      in addComboExplosion_loop rt k x y (nat particleCount) ps)"

subsection \<open>GameEngine.ts\<close>

record GameEngine =
  state :: GameState
  config :: GameConfig
  balloons :: "Balloon list"
  particleSystem :: ParticleSystem
  powerUpManager :: PowerUpManager
  events :: "GameEvent list"
  dimensions :: GameDimensions
  lastUpdateTime :: real
  lastSpawnTime :: real
  comboTimer :: real
  comboCount :: int
  clockReads :: nat
  randomDraws :: nat

text \<open>\<^verbatim>\<open>{ ...DEFAULT_GAME_CONFIG, ...config }\<close>.\<close>

definition mergeConfig :: "GameConfig \<Rightarrow> PartialGameConfig \<Rightarrow> GameConfig" where
  "mergeConfig d c =
     \<lparr> spawnRate = (case spawnRate_opt c of Some v \<Rightarrow> v | None \<Rightarrow> spawnRate d),
       baseSpeed = (case baseSpeed_opt c of Some v \<Rightarrow> v | None \<Rightarrow> baseSpeed d),
       bombChance = (case bombChance_opt c of Some v \<Rightarrow> v | None \<Rightarrow> bombChance d),
       powerupChance = (case powerupChance_opt c of Some v \<Rightarrow> v | None \<Rightarrow> powerupChance d),
       powerupDuration = (case powerupDuration_opt c of Some v \<Rightarrow> v | None \<Rightarrow> powerupDuration d),
       maxLives = (case maxLives_opt c of Some v \<Rightarrow> v | None \<Rightarrow> maxLives d),
       comboTimeout = (case comboTimeout_opt c of Some v \<Rightarrow> v | None \<Rightarrow> comboTimeout d) \<rparr>"

definition noConfig :: PartialGameConfig where
  "noConfig =
     \<lparr> spawnRate_opt = None, baseSpeed_opt = None, bombChance_opt = None,
       powerupChance_opt = None, powerupDuration_opt = None, maxLives_opt = None,
       comboTimeout_opt = None \<rparr>"

text \<open>
  The handlers the engine binds to the manager's callbacks: \<open>onActivate\<close> is forwarded
  to \<^verbatim>\<open>events.onPowerUpActivate\<close>, the other two do nothing.
\<close>

fun onPowerUpCallback :: "PowerUpCallback \<Rightarrow> GameEvent list" where
  "onPowerUpCallback (onActivate powerUp) = [onPowerUpActivate powerUp]"
| "onPowerUpCallback (onDeactivate powerUp) = []"
| "onPowerUpCallback (onUpdate powerUp) = []"

text \<open>A call of a method of the manager, with its callbacks handled.\<close>

definition withPowerUpManager ::
  "(PowerUpManager \<Rightarrow> PowerUpManager \<times> PowerUpCallback list) \<Rightarrow> GameEngine \<Rightarrow> GameEngine" where
  "withPowerUpManager f e =
     (let (m, cs) = f (powerUpManager e)
      in e\<lparr>powerUpManager := m, events := events e @ concat (map onPowerUpCallback cs)\<rparr>)"

definition GameEngine_new :: "GameDimensions \<Rightarrow> PartialGameConfig \<Rightarrow> GameEngine" where
  "GameEngine_new dimensions' config' =
     (let cfg = mergeConfig DEFAULT_GAME_CONFIG config'
      in \<lparr> state = \<lparr> running = False, score = 0, highScore = 0, lives = maxLives cfg,
                      level = 1, combo = 0, gameStarted = False, gameOver = False \<rparr>,
           config = cfg,
           balloons = [],
           particleSystem = [],
           powerUpManager = PowerUpManager_new,
           events = [],
           dimensions = dimensions',
           lastUpdateTime = 0,
           lastSpawnTime = 0,
           comboTimer = 0,
           comboCount = 0,
           clockReads = 0,
           randomDraws = 0 \<rparr>)"

definition resetGame :: "GameEngine \<Rightarrow> GameEngine" where
  "resetGame e =
     (let e1 = e\<lparr>state := \<lparr> running = False, score = 0, highScore = highScore (state e),
                             lives = maxLives (config e), level = 1, combo = 0,
                             gameStarted = False, gameOver = False \<rparr>\<rparr>;
          e2 = e1\<lparr>balloons := []\<rparr>;
          e3 = e2\<lparr>particleSystem := []\<rparr>;
          e4 = withPowerUpManager clearAll e3
      in e4\<lparr>comboTimer := 0, comboCount := 0\<rparr>)"

definition getCurrentDifficulty :: "GameEngine \<Rightarrow> difficulty" where
  "getCurrentDifficulty e = Easy"

definition updateDifficulty :: "difficulty \<Rightarrow> GameEngine \<Rightarrow> GameEngine" where
  "updateDifficulty d e = e"

definition startGame :: "Runtime \<Rightarrow> difficulty \<Rightarrow> GameEngine \<Rightarrow> GameEngine" where
  "startGame rt d e =
     (let e1 = resetGame e;
          e2 = e1\<lparr>state := (state e1)\<lparr>running := True\<rparr>\<rparr>;
          e3 = e2\<lparr>state := (state e2)\<lparr>gameStarted := True\<rparr>\<rparr>;
          e4 = e3\<lparr>lastUpdateTime := performance_now rt (clockReads e3),
                  clockReads := Suc (clockReads e3)\<rparr>;
          e5 = e4\<lparr>lastSpawnTime := performance_now rt (clockReads e4),
                  clockReads := Suc (clockReads e4)\<rparr>
      in updateDifficulty d e5)"

definition pauseGame :: "GameEngine \<Rightarrow> GameEngine" where
  "pauseGame e = e\<lparr>state := (state e)\<lparr>running := False\<rparr>\<rparr>"

definition resumeGame :: "Runtime \<Rightarrow> GameEngine \<Rightarrow> GameEngine" where
  "resumeGame rt e =
     (let e1 = e\<lparr>state := (state e)\<lparr>running := True\<rparr>\<rparr>
      in e1\<lparr>lastUpdateTime := performance_now rt (clockReads e1),
             clockReads := Suc (clockReads e1)\<rparr>)"

definition GameEngine_gameOver :: "GameEngine \<Rightarrow> GameEngine" where
  "GameEngine_gameOver e =
     (let e1 = e\<lparr>state := (state e)\<lparr>running := False\<rparr>\<rparr>;
          e2 = e1\<lparr>state := (state e1)\<lparr>gameOver := True\<rparr>\<rparr>;
          e3 = withPowerUpManager clearAll e2
      in e3\<lparr>events := events e3 @ [onGameOver (score (state e3))]\<rparr>)"

definition resetCombo :: "GameEngine \<Rightarrow> GameEngine" where
  "resetCombo e = e\<lparr>comboCount := 0, comboTimer := 0\<rparr>"

definition addScore :: "int \<Rightarrow> GameEngine \<Rightarrow> GameEngine" where
  "addScore points e =
     (let multiplier = getScoreMultiplier (powerUpManager e);
          finalPoints = points * multiplier;
          e1 = e\<lparr>state := (state e)\<lparr>score := score (state e) + finalPoints\<rparr>\<rparr>
      in e1\<lparr>events := events e1 @ [onScoreUpdate (score (state e1)) multiplier]\<rparr>)"

definition loseLife :: "GameEngine \<Rightarrow> GameEngine" where
  "loseLife e =
     (let e1 = e\<lparr>state := (state e)\<lparr>lives := lives (state e) - 1\<rparr>\<rparr>;
          e2 = resetCombo e1
      in e2\<lparr>events := events e2 @ [onLifeLost]\<rparr>)"

definition gainLife :: "GameEngine \<Rightarrow> GameEngine" where
  "gainLife e =
     (let e1 = e\<lparr>state := (state e)\<lparr>lives := min (lives (state e) + 1) (maxLives (config e))\<rparr>\<rparr>
      in e1\<lparr>events := events e1 @ [onLifeGained]\<rparr>)"

definition incrementCombo :: "Runtime \<Rightarrow> GameEngine \<Rightarrow> GameEngine" where
  "incrementCombo rt e =
     (let e1 = e\<lparr>comboCount := comboCount e + 1\<rparr>;
          e2 = e1\<lparr>comboTimer := comboTimeout (config e1) / 1000\<rparr>
      in if comboCount e2 > 1 then
           let comboPoints = comboCount e2 * 10;
               e3 = addScore comboPoints e2;
               (ps, k) = addComboExplosion rt (randomDraws e3)
                           (width (dimensions e3) / 2) (height (dimensions e3) / 4)
                           (comboCount e3) (particleSystem e3);
               e4 = e3\<lparr>particleSystem := ps, randomDraws := k\<rparr>
           in e4\<lparr>events := events e4 @ [onCombo (comboCount e4)]\<rparr>
         else e2)"

definition GameEngine_activatePowerUp :: "powerup_type \<Rightarrow> GameEngine \<Rightarrow> GameEngine" where
  "GameEngine_activatePowerUp ty e =
     withPowerUpManager (activatePowerUp ty (powerupDuration (config e))) e"

definition spawnBalloons :: "Runtime \<Rightarrow> real \<Rightarrow> GameEngine \<Rightarrow> GameEngine" where
  "spawnBalloons rt currentTime e =
     (let spawnInterval = spawnRate (config e) (getCurrentDifficulty e)
      in if currentTime - lastSpawnTime e > spawnInterval then
           let (balloon, k) = Balloon_create rt (clockReads e) (randomDraws e)
                                (width (dimensions e)) (height (dimensions e))
                                (baseSpeed (config e) (getCurrentDifficulty e))
                                (bombChance (config e) (getCurrentDifficulty e))
                                (powerupChance (config e) (getCurrentDifficulty e));
               e1 = e\<lparr>clockReads := Suc (clockReads e), randomDraws := k\<rparr>;
               e2 = e1\<lparr>balloons := balloons e1 @ [balloon]\<rparr>
           in e2\<lparr>lastSpawnTime := currentTime\<rparr>
         else e)"

text \<open>
  The body of the loop of \<open>updateBalloons\<close> at index \<open>i\<close>. \<open>isOffScreen || isExpired\<close>
  reads the clock only when the balloon is not off the screen.
\<close>

definition updateBalloons_body :: "Runtime \<Rightarrow> real \<Rightarrow> nat \<Rightarrow> GameEngine \<Rightarrow> GameEngine" where
  "updateBalloons_body rt deltaTime i e =
     (let (balloon, c1) = Balloon_update rt (clockReads e) deltaTime
                            (isFreezeActive (powerUpManager e))
                            (isActive (powerUpManager e) Slow)
                            (isMagnetActive (powerUpManager e))
                            (width (dimensions e)) (height (dimensions e))
                            (balloons e ! i);
          e1 = e\<lparr>balloons := (balloons e)[i := balloon], clockReads := c1\<rparr>;
          offScreen = isOffScreen balloon (height (dimensions e1));
          (expired, c2) = (if offScreen then (False, c1)
                           else (isExpired (performance_now rt c1) balloon, Suc c1));
          e2 = e1\<lparr>clockReads := c2\<rparr>
      in if offScreen \<or> expired then
           let e3 = e2\<lparr>balloons := splice1 i (balloons e2)\<rparr>
           in if \<not> isOffScreen balloon (height (dimensions e3))
                 \<and> b_type balloon \<noteq> Bomb
                 \<and> b_type balloon \<noteq> Heart
              then loseLife e3 else e3
         else e2)"

text \<open>The loop runs from the last index down; \<open>i\<close> is the number of indices still to visit.\<close>

fun updateBalloons_loop :: "Runtime \<Rightarrow> real \<Rightarrow> nat \<Rightarrow> GameEngine \<Rightarrow> GameEngine" where
  "updateBalloons_loop rt deltaTime 0 e = e"
| "updateBalloons_loop rt deltaTime (Suc i) e =
     updateBalloons_loop rt deltaTime i (updateBalloons_body rt deltaTime i e)"

definition updateBalloons :: "Runtime \<Rightarrow> real \<Rightarrow> GameEngine \<Rightarrow> GameEngine" where
  "updateBalloons rt deltaTime e = updateBalloons_loop rt deltaTime (length (balloons e)) e"

definition popBalloon :: "Runtime \<Rightarrow> Balloon \<Rightarrow> nat \<Rightarrow> InputEvent \<Rightarrow> GameEngine \<Rightarrow> GameEngine" where
  "popBalloon rt balloon index ev e =
     (let points = getPoints balloon;
          (ps, k) = addParticles rt (randomDraws e) (b_x balloon) (b_y balloon) (b_color balloon)
                      15 (particleSystem e);
          e1 = e\<lparr>particleSystem := ps, randomDraws := k\<rparr>;
          e2 = (case b_type balloon of
                  Normal \<Rightarrow> incrementCombo rt (addScore \<bar>points\<bar> e1)
                | Special \<Rightarrow> incrementCombo rt (addScore \<bar>points\<bar> e1)
                | Heart \<Rightarrow> gainLife e1
                | Bomb \<Rightarrow>
                    if \<not> isDefuserActive (powerUpManager e1) then loseLife e1
                    else addScore 1 e1
                | PowerUpBalloon ty \<Rightarrow>
                    incrementCombo rt (addScore 10 (GameEngine_activatePowerUp ty e1)));
          e3 = e2\<lparr>balloons := splice1 index (balloons e2)\<rparr>
      in e3\<lparr>events := events e3 @ [onBalloonPop balloon points]\<rparr>)"

text \<open>
  The loop of \<open>handleInput\<close>, from the last index down: the first balloon that contains
  the point is popped and the loop left. The result has the flag \<open>hitBalloon\<close>.
\<close>

fun handleInput_loop :: "Runtime \<Rightarrow> InputEvent \<Rightarrow> nat \<Rightarrow> GameEngine \<Rightarrow> bool \<times> GameEngine" where
  "handleInput_loop rt ev 0 e = (False, e)"
| "handleInput_loop rt ev (Suc i) e =
     (let balloon = balloons e ! i
      in if containsPoint balloon (ev_x ev) (ev_y ev) then (True, popBalloon rt balloon i ev e)
         else handleInput_loop rt ev i e)"

definition handleInput :: "Runtime \<Rightarrow> InputEvent \<Rightarrow> GameEngine \<Rightarrow> GameEngine" where
  "handleInput rt ev e =
     (if \<not> running (state e) then e
      else
        let (hitBalloon, e1) = handleInput_loop rt ev (length (balloons e)) e
        in if \<not> hitBalloon then resetCombo e1 else e1)"

definition update :: "Runtime \<Rightarrow> real \<Rightarrow> GameEngine \<Rightarrow> GameEngine" where
  "update rt currentTime e =
     (if \<not> running (state e) then e
      else
        let deltaTime = (currentTime - lastUpdateTime e) / 1000;
            e1 = e\<lparr>lastUpdateTime := currentTime\<rparr>;
            e2 = (if comboTimer e1 > 0 then
                    let e1a = e1\<lparr>comboTimer := comboTimer e1 - deltaTime\<rparr>
                    in if comboTimer e1a \<le> 0 then e1a\<lparr>comboCount := 0\<rparr> else e1a
                  else e1);
            e3 = spawnBalloons rt currentTime e2;
            e4 = updateBalloons rt deltaTime e3;
            e5 = e4\<lparr>particleSystem := ParticleSystem_update deltaTime (particleSystem e4)\<rparr>;
            e6 = withPowerUpManager (PowerUpManager_update deltaTime) e5
        in if lives (state e6) \<le> 0 then GameEngine_gameOver e6 else e6)"

text \<open>The calls of the public interface that drive a session, and a run of them.\<close>

datatype call =
    StartGame difficulty
  | Update real
  | HandleInput InputEvent
  | PauseGame
  | ResumeGame
  | ResetGame

fun perform :: "Runtime \<Rightarrow> call \<Rightarrow> GameEngine \<Rightarrow> GameEngine" where
  "perform rt (StartGame d) e = startGame rt d e"
| "perform rt (Update currentTime) e = update rt currentTime e"
| "perform rt (HandleInput ev) e = handleInput rt ev e"
| "perform rt PauseGame e = pauseGame e"
| "perform rt ResumeGame e = resumeGame rt e"
| "perform rt ResetGame e = resetGame e"

definition run :: "Runtime \<Rightarrow> call list \<Rightarrow> GameEngine \<Rightarrow> GameEngine" where
  "run rt calls e = foldl (\<lambda>e' c. perform rt c e') e calls"

subsection \<open>Calls of the power-up manager\<close>

datatype manager_call =
    ActivatePowerUp powerup_type real
  | DeactivatePowerUp powerup_type
  | UpdatePowerUps real
  | ClearAll

fun manager_perform :: "manager_call \<Rightarrow> PowerUpManager \<Rightarrow> PowerUpManager" where
  "manager_perform (ActivatePowerUp ty d) m = fst (activatePowerUp ty d m)"
| "manager_perform (DeactivatePowerUp ty) m = fst (deactivatePowerUp ty m)"
| "manager_perform (UpdatePowerUps deltaTime) m = fst (PowerUpManager_update deltaTime m)"
| "manager_perform ClearAll m = fst (clearAll m)"

text \<open>The manager after a sequence of calls on a new one.\<close>

definition manager_run :: "manager_call list \<Rightarrow> PowerUpManager" where
  "manager_run calls = foldl (\<lambda>m c. manager_perform c m) PowerUpManager_new calls"

text \<open>
  What steps 4 and 5 of the spec's \<open>update\<close> see of the balloons: each balloon in turn
  with the clock count \<open>c\<close> before it, as \<open>Balloon.update\<close> has moved it, with whether it
  is above the top edge and whether, not being so, it has outlived its lifespan. The
  clock is read by the move in its normal branch, and by the test of the lifespan.
\<close>

fun updateBalloons_rounds ::
  "Runtime \<Rightarrow> real \<Rightarrow> PowerUpManager \<Rightarrow> GameDimensions \<Rightarrow> nat \<Rightarrow> Balloon list
     \<Rightarrow> (Balloon \<times> bool \<times> bool) list" where
  "updateBalloons_rounds rt deltaTime m d c [] = []"
| "updateBalloons_rounds rt deltaTime m d c (b # bs) =
     (let moved = Balloon_update rt c deltaTime (isFreezeActive m) (isActive m Slow)
                    (isMagnetActive m) (width d) (height d) b;
          balloon = fst moved;
          offScreen = isOffScreen balloon (height d);
          expired = (\<not> offScreen \<and> isExpired (performance_now rt (snd moved)) balloon)
      in (balloon, offScreen, expired)
         # updateBalloons_rounds rt deltaTime m d
             (if offScreen then snd moved else Suc (snd moved)) bs)"

text \<open>
  Frames in which the combo timeout does not elapse (a combo timer that runs before the
  frame still runs after it) and no life is lost.
\<close>

fun quietFrames :: "Runtime \<Rightarrow> real list \<Rightarrow> GameEngine \<Rightarrow> bool" where
  "quietFrames rt [] e = True"
| "quietFrames rt (currentTime # ts) e =
     ((0 < comboTimer e \<longrightarrow> 0 < comboTimer (update rt currentTime e))
      \<and> lives (state (update rt currentTime e)) = lives (state e)
      \<and> quietFrames rt ts (update rt currentTime e))"

text \<open>Whether a callback reports the pop of a normal balloon.\<close>

fun isNormalPop :: "GameEvent \<Rightarrow> bool" where
  "isNormalPop (onBalloonPop balloon points) = (b_type balloon = Normal)"
| "isNormalPop event = False"

subsection \<open>Concrete sessions\<close>

definition dims0 :: GameDimensions where
  "dims0 = \<lparr> width = 800, height = 600, dpr = 1 \<rparr>"

text \<open>
  A runtime whose clock stands at 0 and whose draws are all 1/2. The products and sums
  of the concrete runtimes are exact: the products of 1/2 are doubles, and so is the
  sum of the double 0.05 and itself.
\<close>

definition rt0 :: Runtime where
  "rt0 = \<lparr> performance_now = (\<lambda>n. 0), Math_random = (\<lambda>n. 1 / 2),
           double_times = (\<lambda>x y. x * y),
       double_plus = (\<lambda>x y. x + y) \<rparr>"

text \<open>A runtime whose clock stands at one minute.\<close>

definition rt_late :: Runtime where
  "rt_late = \<lparr> performance_now = (\<lambda>n. 60000), Math_random = (\<lambda>n. 1 / 2),
               double_times = (\<lambda>x y. x * y),
       double_plus = (\<lambda>x y. x + y) \<rparr>"

text \<open>
  A runtime whose draws are 0.07, 0.8 and then 0.01. The exact products of 0.8 and of
  0.01 with 7 have the floors of the double products, 5 and 0.
\<close>

definition rt_draws :: Runtime where
  "rt_draws =
     \<lparr> performance_now = (\<lambda>n. 0),
       Math_random = (\<lambda>n. if n = 0 then 0.07 else if n = 1 then 0.8 else 0.01),
       double_times = (\<lambda>x y. x * y),
       double_plus = (\<lambda>x y. x + y) \<rparr>"

text \<open>
  A session: the start, four frames 601 ms apart, a pause, a resume nearly a minute
  later, and one more frame. The clock reads 0 during the start, the time of the
  frame during a frame, and 60000 at the resume.
\<close>

definition rt_pause :: Runtime where
  "rt_pause =
     \<lparr> performance_now =
         (\<lambda>n. if n < 2 then 0 else if n < 5 then 601 else if n < 10 then 1202
              else if n < 17 then 1803 else if n < 26 then 2404
              else if n < 27 then 60000 else 60016),
       Math_random = (\<lambda>n. 1 / 2),
       double_times = (\<lambda>x y. x * y),
       double_plus = (\<lambda>x y. x + y) \<rparr>"

definition calls_resumed :: "call list" where
  "calls_resumed =
     [StartGame Easy, Update 601, Update 1202, Update 1803, Update 2404,
      PauseGame, ResumeGame]"

definition calls_pause :: "call list" where
  "calls_pause = calls_resumed @ [Update 60016]"

text \<open>
  A session: the start, two frames 601 ms apart, a pause, a resume nearly a minute later;
  then five taps at the point (400, 600), the first at once and each of the others
  after one more frame, the frames at 60016, 60617, 61218 and 61819 ms. The clock reads
  0 during the start, the time of the frame during a frame, and 60000 at the resume.
\<close>

definition rt_streak :: Runtime where
  "rt_streak =
     \<lparr> performance_now =
         (\<lambda>n. if n < 2 then 0 else if n < 5 then 601 else if n < 10 then 1202
              else if n < 11 then 60000 else if n < 16 then 60016
              else if n < 19 then 60617 else if n < 22 then 61218 else 61819),
       Math_random = (\<lambda>n. 1 / 2),
       double_times = (\<lambda>x y. x * y),
       double_plus = (\<lambda>x y. x + y) \<rparr>"

definition ev_tap :: InputEvent where
  "ev_tap = \<lparr> ev_x = 400, ev_y = 600, ev_type = Touch, ev_timestamp = 0 \<rparr>"

definition calls_before_taps :: "call list" where
  "calls_before_taps = [StartGame Easy, Update 601, Update 1202, PauseGame, ResumeGame]"

definition calls_first_tap :: "call list" where
  "calls_first_tap = calls_before_taps @ [HandleInput ev_tap]"

definition calls_first_frame :: "call list" where
  "calls_first_frame = calls_first_tap @ [Update 60016]"

definition calls_streak :: "call list" where
  "calls_streak =
     calls_first_frame @
     [HandleInput ev_tap, Update 60617, HandleInput ev_tap, Update 61218, HandleInput ev_tap,
      Update 61819, HandleInput ev_tap]"

definition ev0 :: InputEvent where
  "ev0 = \<lparr> ev_x = 400, ev_y = 300, ev_type = Click, ev_timestamp = 0 \<rparr>"

text \<open>A balloon of the given type, born at \<open>birth\<close>, at height \<open>y\<close>.\<close>

definition balloon0 :: "balloon_type \<Rightarrow> real \<Rightarrow> real \<Rightarrow> Balloon" where
  "balloon0 ty birth y =
     \<lparr> b_id = 1 / 2, b_x = 400, b_y = y, b_r = 35, b_speed = 4 / 5, b_type = ty,
       b_birth = birth, b_lifespan = 50000, b_vx = 0, b_vy = - (4 / 5),
       b_color = (64, 57, 230), b_xOffset = 0 \<rparr>"

text \<open>
  A running engine with four balloons: one above the top edge, two on the screen that
  are older than their lifespan at one minute (a normal one and a heart), and a young one.
\<close>

definition engine_cull :: GameEngine where
  "engine_cull =
     (GameEngine_new dims0 noConfig)
       \<lparr> state := \<lparr> running = True, score = 0, highScore = 0, lives = 3, level = 1,
                     combo = 0, gameStarted = True, gameOver = False \<rparr>,
         balloons := [balloon0 Normal 0 (- 100), balloon0 Normal 0 300,
                      balloon0 Heart 0 300, balloon0 Normal 59000 300] \<rparr>"

text \<open>A new engine with the defuser activated.\<close>

definition engine_defuser :: GameEngine where
  "engine_defuser = GameEngine_activatePowerUp Defuser (GameEngine_new dims0 noConfig)"

text \<open>A new engine that has lost a life.\<close>

definition engine_hurt :: GameEngine where
  "engine_hurt = loseLife (GameEngine_new dims0 noConfig)"

section \<open>Properties\<close>

subsection \<open>What the scoring methods change\<close>

lemma addScore_fields:
  "score (state (addScore p e)) = score (state e) + p * getScoreMultiplier (powerUpManager e)"
  "lives (state (addScore p e)) = lives (state e)"
  "comboCount (addScore p e) = comboCount e"
  "comboTimer (addScore p e) = comboTimer e"
  "powerUpManager (addScore p e) = powerUpManager e"
  "config (addScore p e) = config e"
  by (simp_all add: addScore_def Let_def)

lemma loseLife_fields:
  "score (state (loseLife e)) = score (state e)"
  "lives (state (loseLife e)) = lives (state e) - 1"
  "comboCount (loseLife e) = 0"
  "comboTimer (loseLife e) = 0"
  "powerUpManager (loseLife e) = powerUpManager e"
  "config (loseLife e) = config e"
  "balloons (loseLife e) = balloons e"
  by (simp_all add: loseLife_def resetCombo_def Let_def)

lemma gainLife_fields:
  "score (state (gainLife e)) = score (state e)"
  "lives (state (gainLife e)) = min (lives (state e) + 1) (maxLives (config e))"
  "comboCount (gainLife e) = comboCount e"
  "comboTimer (gainLife e) = comboTimer e"
  "powerUpManager (gainLife e) = powerUpManager e"
  "config (gainLife e) = config e"
  by (simp_all add: gainLife_def Let_def)

lemma incrementCombo_fields:
  "score (state (incrementCombo rt e)) =
     score (state e) + (if comboCount e + 1 > 1
                        then (comboCount e + 1) * 10 * getScoreMultiplier (powerUpManager e)
                        else 0)"
  "lives (state (incrementCombo rt e)) = lives (state e)"
  "comboCount (incrementCombo rt e) = comboCount e + 1"
  "comboTimer (incrementCombo rt e) = comboTimeout (config e) / 1000"
  "powerUpManager (incrementCombo rt e) = powerUpManager e"
  "config (incrementCombo rt e) = config e"
  by (simp_all add: incrementCombo_def addScore_def Let_def split: prod.splits)

lemma withPowerUpManager_fields:
  "state (withPowerUpManager f e) = state e"
  "config (withPowerUpManager f e) = config e"
  "comboCount (withPowerUpManager f e) = comboCount e"
  "comboTimer (withPowerUpManager f e) = comboTimer e"
  "powerUpManager (withPowerUpManager f e) = fst (f (powerUpManager e))"
  by (simp_all add: withPowerUpManager_def Let_def split: prod.splits)

text \<open>Popping a normal balloon: the base value, then the combo with its bonus.\<close>

lemma popBalloon_normal:
  assumes "b_type balloon = Normal"
  shows "score (state (popBalloon rt balloon index ev e)) =
           score (state e) + 1 * getScoreMultiplier (powerUpManager e)
            + (if comboCount e + 1 > 1
               then (comboCount e + 1) * 10 * getScoreMultiplier (powerUpManager e) else 0)"
    and "comboCount (popBalloon rt balloon index ev e) = comboCount e + 1"
    and "powerUpManager (popBalloon rt balloon index ev e) = powerUpManager e"
  using assms
  by (simp_all add: popBalloon_def Let_def getPoints_def incrementCombo_fields addScore_fields
      split: prod.splits)

text \<open>
  An input that hits a balloon pops the topmost one that contains the point, that is
  the one with the highest index.
\<close>

lemma handleInput_loop_hit:
  assumes "i < n"
    and "containsPoint (balloons e ! i) (ev_x ev) (ev_y ev)"
    and "\<And>j. i < j \<Longrightarrow> j < n \<Longrightarrow> \<not> containsPoint (balloons e ! j) (ev_x ev) (ev_y ev)"
  shows "handleInput_loop rt ev n e = (True, popBalloon rt (balloons e ! i) i ev e)"
  using assms
proof (induction n)
  case 0
  then show ?case by simp
next
  case (Suc n)
  show ?case
  proof (cases "i = n")
    case True
    with Suc.prems(2) show ?thesis by simp
  next
    case False
    with Suc.prems(1) have lt: "i < n" by simp
    from lt Suc.prems(3) have miss: "\<not> containsPoint (balloons e ! n) (ev_x ev) (ev_y ev)"
      by simp
    from Suc.IH [OF lt Suc.prems(2)] Suc.prems(3) miss show ?thesis by simp
  qed
qed

lemma handleInput_pops:
  assumes "running (state e)" and "i < length (balloons e)"
    and "containsPoint (balloons e ! i) (ev_x ev) (ev_y ev)"
    and "\<And>j. i < j \<Longrightarrow> j < length (balloons e) \<Longrightarrow>
           \<not> containsPoint (balloons e ! j) (ev_x ev) (ev_y ev)"
  shows "handleInput rt ev e = popBalloon rt (balloons e ! i) i ev e"
  using assms(1) handleInput_loop_hit [OF assms(2,3,4), of rt]
  by (simp add: handleInput_def)

subsection \<open>Popping a bomb\<close>

text \<open>
  Claim C3. Popping a bomb balloon while the defuser effect is active leaves the lives
  as they are and adds the consolation score: 1, through \<open>addScore\<close>, so 2 while the
  multiplier is active. Popping it while the defuser is inactive takes exactly one
  life and resets the combo count (and its timer) to 0.
\<close>

theorem popBalloon_bomb:
  assumes "b_type balloon = Bomb"
  shows "(isDefuserActive (powerUpManager e) \<longrightarrow>
            lives (state (popBalloon rt balloon index ev e)) = lives (state e)
          \<and> score (state (popBalloon rt balloon index ev e)) =
              score (state e) + (if isActive (powerUpManager e) Multiplier then 2 else 1))
       \<and> (\<not> isDefuserActive (powerUpManager e) \<longrightarrow>
            lives (state (popBalloon rt balloon index ev e)) = lives (state e) - 1
          \<and> comboCount (popBalloon rt balloon index ev e) = 0
          \<and> comboTimer (popBalloon rt balloon index ev e) = 0)"
  using assms
  by (simp add: popBalloon_def Let_def addScore_fields loseLife_fields getScoreMultiplier_def
      split: prod.splits)

theorem popBalloon_bomb_witness:
  "b_type (balloon0 Bomb 0 300) = Bomb
   \<and> isDefuserActive (powerUpManager engine_defuser)
   \<and> lives (state engine_defuser) = 3
   \<and> score (state engine_defuser) = 0
   \<and> lives (state (popBalloon rt0 (balloon0 Bomb 0 300) 0 ev0 engine_defuser)) = 3
   \<and> score (state (popBalloon rt0 (balloon0 Bomb 0 300) 0 ev0 engine_defuser)) = 1
   \<and> \<not> isDefuserActive (powerUpManager (GameEngine_new dims0 noConfig))
   \<and> lives (state (GameEngine_new dims0 noConfig)) = 3
   \<and> lives (state (popBalloon rt0 (balloon0 Bomb 0 300) 0 ev0 (GameEngine_new dims0 noConfig))) = 2
   \<and> comboCount (popBalloon rt0 (balloon0 Bomb 0 300) 0 ev0 (GameEngine_new dims0 noConfig)) = 0"
proof -
  have ty: "b_type (balloon0 Bomb 0 300) = Bomb"
    by (simp add: balloon0_def)
  have m: "powerUpManager engine_defuser =
             [(Defuser, \<lparr> pu_type = Defuser, duration = 10, active = True, timeLeft = 10 \<rparr>)]"
    by (simp add: engine_defuser_def GameEngine_activatePowerUp_def withPowerUpManager_def
        activatePowerUp_def GameEngine_new_def PowerUpManager_new_def mergeConfig_def
        noConfig_def DEFAULT_GAME_CONFIG_def Let_def)
  have s: "state engine_defuser = state (GameEngine_new dims0 noConfig)"
    by (simp add: engine_defuser_def GameEngine_activatePowerUp_def withPowerUpManager_fields)
  have n: "state (GameEngine_new dims0 noConfig) =
             \<lparr> running = False, score = 0, highScore = 0, lives = 3, level = 1, combo = 0,
               gameStarted = False, gameOver = False \<rparr>"
          "powerUpManager (GameEngine_new dims0 noConfig) = []"
    by (simp_all add: GameEngine_new_def PowerUpManager_new_def mergeConfig_def
        noConfig_def DEFAULT_GAME_CONFIG_def Let_def)
  show ?thesis
    using popBalloon_bomb [OF ty, of engine_defuser rt0 0 ev0]
          popBalloon_bomb [OF ty, of "GameEngine_new dims0 noConfig" rt0 0 ev0]
    by (simp add: ty m s n isDefuserActive_def isActive_def)
qed

subsection \<open>Popping a heart\<close>

text \<open>
  Claim C7. Popping a heart balloon changes neither the score nor the combo count nor
  the combo timer; it adds one life while the lives are below the configured maximum,
  leaves them as they are when they equal it, and never leaves them above it.
\<close>

theorem popBalloon_heart:
  assumes "b_type balloon = Heart"
  shows "score (state (popBalloon rt balloon index ev e)) = score (state e)
       \<and> comboCount (popBalloon rt balloon index ev e) = comboCount e
       \<and> comboTimer (popBalloon rt balloon index ev e) = comboTimer e
       \<and> (lives (state e) < maxLives (config e) \<longrightarrow>
            lives (state (popBalloon rt balloon index ev e)) = lives (state e) + 1)
       \<and> (lives (state e) = maxLives (config e) \<longrightarrow>
            lives (state (popBalloon rt balloon index ev e)) = lives (state e))
       \<and> lives (state (popBalloon rt balloon index ev e)) \<le> maxLives (config e)"
  using assms
  by (simp add: popBalloon_def Let_def gainLife_fields split: prod.splits)

theorem popBalloon_heart_witness:
  "b_type (balloon0 Heart 0 300) = Heart
   \<and> lives (state (GameEngine_new dims0 noConfig)) = 3
   \<and> maxLives (config (GameEngine_new dims0 noConfig)) = 3
   \<and> lives (state (popBalloon rt0 (balloon0 Heart 0 300) 0 ev0 (GameEngine_new dims0 noConfig))) = 3
   \<and> lives (state engine_hurt) = 2
   \<and> maxLives (config engine_hurt) = 3
   \<and> lives (state (popBalloon rt0 (balloon0 Heart 0 300) 0 ev0 engine_hurt)) = 3
   \<and> score (state (popBalloon rt0 (balloon0 Heart 0 300) 0 ev0 engine_hurt)) = 0"
proof -
  have ty: "b_type (balloon0 Heart 0 300) = Heart"
    by (simp add: balloon0_def)
  have n: "lives (state (GameEngine_new dims0 noConfig)) = 3"
          "score (state (GameEngine_new dims0 noConfig)) = 0"
          "maxLives (config (GameEngine_new dims0 noConfig)) = 3"
    by (simp_all add: GameEngine_new_def mergeConfig_def noConfig_def DEFAULT_GAME_CONFIG_def
        Let_def)
  have h: "lives (state engine_hurt) = 2" "score (state engine_hurt) = 0"
          "maxLives (config engine_hurt) = 3"
    by (simp_all add: engine_hurt_def loseLife_fields n)
  show ?thesis
    using popBalloon_heart [OF ty, of rt0 0 ev0 "GameEngine_new dims0 noConfig"]
          popBalloon_heart [OF ty, of rt0 0 ev0 engine_hurt]
    by (simp add: ty n h)
qed

subsection \<open>Calls outside the running phase\<close>

text \<open>
  Claim C9. While the engine is not running (idle, paused or ended), \<open>update\<close> and
  \<open>handleInput\<close> return the engine as it is: no field of the game state and none of
  the collections changes, and there is no error to raise.
\<close>

theorem not_running_noop:
  assumes "\<not> running (state e)"
  shows "update rt currentTime e = e \<and> handleInput rt ev e = e"
  using assms by (simp add: update_def handleInput_def)

theorem not_running_noop_witness:
  "\<not> running (state (GameEngine_new dims0 noConfig))
   \<and> update rt0 601 (GameEngine_new dims0 noConfig) = GameEngine_new dims0 noConfig
   \<and> handleInput rt0 ev0 (GameEngine_new dims0 noConfig) = GameEngine_new dims0 noConfig
   \<and> \<not> running (state (pauseGame (startGame rt0 Easy (GameEngine_new dims0 noConfig))))
   \<and> update rt0 601 (pauseGame (startGame rt0 Easy (GameEngine_new dims0 noConfig)))
       = pauseGame (startGame rt0 Easy (GameEngine_new dims0 noConfig))"
proof -
  have idle: "\<not> running (state (GameEngine_new dims0 noConfig))"
    by (simp add: GameEngine_new_def Let_def)
  have paused: "\<not> running (state (pauseGame (startGame rt0 Easy (GameEngine_new dims0 noConfig))))"
    by (simp add: pauseGame_def)
  show ?thesis
    using not_running_noop [OF idle, of rt0 601 ev0] not_running_noop [OF paused, of rt0 601 ev0]
          idle paused
    by simp
qed

subsection \<open>Pausing\<close>

text \<open>
  Claim C10. \<open>pauseGame\<close> sets the running flag to false and changes nothing else:
  the other fields of the game state, the combo count and timer, the balloons, the
  particles and the active power-ups with their remaining times stay as they are.
\<close>

theorem pauseGame_frame:
  "pauseGame e = e\<lparr>state := (state e)\<lparr>running := False\<rparr>\<rparr>
   \<and> running (state (pauseGame e)) = False
   \<and> score (state (pauseGame e)) = score (state e)
   \<and> highScore (state (pauseGame e)) = highScore (state e)
   \<and> lives (state (pauseGame e)) = lives (state e)
   \<and> level (state (pauseGame e)) = level (state e)
   \<and> combo (state (pauseGame e)) = combo (state e)
   \<and> gameStarted (state (pauseGame e)) = gameStarted (state e)
   \<and> gameOver (state (pauseGame e)) = gameOver (state e)
   \<and> comboCount (pauseGame e) = comboCount e
   \<and> comboTimer (pauseGame e) = comboTimer e
   \<and> balloons (pauseGame e) = balloons e
   \<and> particleSystem (pauseGame e) = particleSystem e
   \<and> powerUpManager (pauseGame e) = powerUpManager e"
  by (simp add: pauseGame_def)

subsection \<open>One power-up of a type at a time\<close>

lemma update_fresh: "k \<notin> fst ` set al \<Longrightarrow> AList.update k v al = al @ [(k, v)]"
  by (induction al) auto

lemma filter_fresh: "k \<notin> fst ` set al \<Longrightarrow> filter (\<lambda>kv. fst kv = k) al = []"
  by (induction al) auto

lemma deactivatePowerUp_distinct:
  "distinct (map fst m) \<Longrightarrow> distinct (map fst (fst (deactivatePowerUp ty m)))"
  by (simp add: deactivatePowerUp_def AList.distinct_delete split: option.splits)

text \<open>After \<open>activatePowerUp\<close> the new entry is the last one, and the only one of its type.\<close>

lemma activatePowerUp_append:
  "fst (activatePowerUp ty d m) =
     AList.delete ty m @ [(ty, \<lparr> pu_type = ty, duration = d, active = True, timeLeft = d \<rparr>)]"
proof (cases "map_of m ty")
  case None
  then have "ty \<notin> fst ` set m" by (simp add: map_of_eq_None_iff)
  with None show ?thesis
    by (simp add: activatePowerUp_def Let_def update_fresh)
next
  case (Some old)
  have "ty \<notin> fst ` set (AList.delete ty m)" by (rule AList.delete_notin_dom)
  with Some show ?thesis
    by (simp add: activatePowerUp_def deactivatePowerUp_def Let_def update_fresh)
qed

lemma activatePowerUp_callbacks:
  "snd (activatePowerUp ty d m) =
     (case map_of m ty of
        Some old \<Rightarrow> [onDeactivate (old\<lparr>active := False, timeLeft := 0\<rparr>)]
      | None \<Rightarrow> [])
     @ [onActivate \<lparr> pu_type = ty, duration = d, active = True, timeLeft = d \<rparr>]"
  by (simp add: activatePowerUp_def deactivatePowerUp_def Let_def split: option.splits)

lemma activatePowerUp_distinct:
  "distinct (map fst m) \<Longrightarrow> distinct (map fst (fst (activatePowerUp ty d m)))"
  using AList.delete_notin_dom [of ty m]
  by (simp add: activatePowerUp_append AList.distinct_delete)

lemma foldl_delete_distinct:
  "distinct (map fst al) \<Longrightarrow> distinct (map fst (foldl (\<lambda>al ty. AList.delete ty al) al ks))"
  by (induction ks arbitrary: al) (simp_all add: AList.distinct_delete)

lemma aged_keys: "map fst (map (\<lambda>(ty, powerUp). (ty, f powerUp)) m) = map fst m"
  by (induction m) auto

lemma PowerUpManager_update_distinct:
  "distinct (map fst m) \<Longrightarrow> distinct (map fst (fst (PowerUpManager_update deltaTime m)))"
  by (simp add: PowerUpManager_update_def Let_def foldl_delete_distinct aged_keys del: map_map)

lemma manager_perform_distinct:
  "distinct (map fst m) \<Longrightarrow> distinct (map fst (manager_perform c m))"
  by (cases c)
     (simp_all add: activatePowerUp_distinct deactivatePowerUp_distinct
        PowerUpManager_update_distinct clearAll_def)

lemma manager_run_distinct: "distinct (map fst (manager_run calls))"
proof -
  have "distinct (map fst m) \<Longrightarrow> distinct (map fst (foldl (\<lambda>m c. manager_perform c m) m calls))"
    for m
    by (induction calls arbitrary: m) (simp_all add: manager_perform_distinct)
  then show ?thesis by (simp add: manager_run_def PowerUpManager_new_def)
qed

text \<open>
  Claim C2. A manager reached by any sequence of calls has at most one entry per type,
  and so has it after one more \<open>activatePowerUp\<close>: then there is exactly one entry of the
  activated type, its remaining time is the full duration whatever the old entry had
  left, and the callbacks invoked are the deactivation of the old entry, when there was
  one, followed by the activation of the new one.
\<close>

theorem activatePowerUp_replaces:
  "distinct (map fst (manager_run calls))
   \<and> distinct (map fst (fst (activatePowerUp ty d (manager_run calls))))
   \<and> length (filter (\<lambda>kv. fst kv = ty) (fst (activatePowerUp ty d (manager_run calls)))) = 1
   \<and> map_of (fst (activatePowerUp ty d (manager_run calls))) ty =
       Some \<lparr> pu_type = ty, duration = d, active = True, timeLeft = d \<rparr>
   \<and> getTimeLeft (fst (activatePowerUp ty d (manager_run calls))) ty = d
   \<and> snd (activatePowerUp ty d (manager_run calls)) =
       (case map_of (manager_run calls) ty of
          Some old \<Rightarrow> [onDeactivate (old\<lparr>active := False, timeLeft := 0\<rparr>)]
        | None \<Rightarrow> [])
       @ [onActivate \<lparr> pu_type = ty, duration = d, active = True, timeLeft = d \<rparr>]"
proof -
  let ?m = "manager_run calls"
  have d: "distinct (map fst ?m)" by (rule manager_run_distinct)
  have fresh: "ty \<notin> fst ` set (AList.delete ty ?m)" by (rule AList.delete_notin_dom)
  have one: "length (filter (\<lambda>kv. fst kv = ty) (fst (activatePowerUp ty d ?m))) = 1"
    by (simp add: activatePowerUp_append filter_fresh [OF fresh])
  have look: "map_of (fst (activatePowerUp ty d ?m)) ty =
       Some \<lparr> pu_type = ty, duration = d, active = True, timeLeft = d \<rparr>"
    using fresh by (simp add: activatePowerUp_append map_add_Some_iff map_of_eq_None_iff)
  show ?thesis
    using d one look
    by (simp add: activatePowerUp_distinct activatePowerUp_callbacks getTimeLeft_def)
qed

theorem activatePowerUp_replaces_witness:
  "map_of (manager_run [ActivatePowerUp Slow 10, UpdatePowerUps 3]) Slow =
     Some \<lparr> pu_type = Slow, duration = 10, active = True, timeLeft = 7 \<rparr>
   \<and> getTimeLeft (fst (activatePowerUp Slow 10
         (manager_run [ActivatePowerUp Slow 10, UpdatePowerUps 3]))) Slow = 10
   \<and> length (filter (\<lambda>kv. fst kv = Slow) (fst (activatePowerUp Slow 10
         (manager_run [ActivatePowerUp Slow 10, UpdatePowerUps 3])))) = 1
   \<and> snd (activatePowerUp Slow 10 (manager_run [ActivatePowerUp Slow 10, UpdatePowerUps 3])) =
       [onDeactivate \<lparr> pu_type = Slow, duration = 10, active = False, timeLeft = 0 \<rparr>,
        onActivate \<lparr> pu_type = Slow, duration = 10, active = True, timeLeft = 10 \<rparr>]"
proof -
  have m: "manager_run [ActivatePowerUp Slow 10, UpdatePowerUps 3] =
             [(Slow, \<lparr> pu_type = Slow, duration = 10, active = True, timeLeft = 7 \<rparr>)]"
    by (simp add: manager_run_def PowerUpManager_new_def activatePowerUp_def
        PowerUpManager_update_def agePowerUp_def Let_def)
  show ?thesis
    using activatePowerUp_replaces [of "[ActivatePowerUp Slow 10, UpdatePowerUps 3]" Slow 10]
    by (simp add: m)
qed

subsection \<open>The type of a new balloon\<close>

text \<open>
  Claim C6, as stated, fails: in the power-up branch the type is drawn from seven
  categories, heart and special among them. With the default chances of the easy
  profile, the draws 0.07 and 0.8 select a heart.
\<close>

theorem selectBalloonType_heart:
  "selectBalloonType rt_draws 0 (bombChance DEFAULT_GAME_CONFIG Easy)
     (powerupChance DEFAULT_GAME_CONFIG Easy) = (Heart, 2)
   \<and> Heart \<notin> {Bomb, Normal, PowerUpBalloon Slow, PowerUpBalloon Multiplier,
        PowerUpBalloon Freeze, PowerUpBalloon Magnet, PowerUpBalloon Defuser}"
  by (simp add: selectBalloonType_def rt_draws_def DEFAULT_GAME_CONFIG_def powerupTypes_def
      Let_def)

lemma distinct_powerupTypes: "distinct powerupTypes"
  by (simp add: powerupTypes_def)

lemma floor_index:
  fixes p :: real
  assumes "0 \<le> p"
  shows "nat \<lfloor>p\<rfloor> = j \<longleftrightarrow> real j \<le> p \<and> p < real j + 1"
proof -
  have nn: "0 \<le> \<lfloor>p\<rfloor>" using assms by simp
  have "nat \<lfloor>p\<rfloor> = j \<longleftrightarrow> \<lfloor>p\<rfloor> = int j" using nn by auto
  also have "\<dots> \<longleftrightarrow> real j \<le> p \<and> p < real j + 1"
    by (simp add: floor_eq_iff)
  finally show ?thesis .
qed

text \<open>
  Claim C6, amended. Let \<open>u\<close> be the first draw, \<open>v\<close> the second and \<open>p\<close> the product of
  \<open>v\<close> and 7 as the program computes it, in \<open>[0, 7)\<close>. If \<open>u\<close> is below the bomb chance the
  type is bomb; otherwise, if \<open>u\<close> is below the sum of the bomb and power-up chances
  as the program computes it, the
  type is one of the seven categories slow, multiplier, freeze, magnet, defuser, heart,
  special: the \<open>j\<close>-th of them exactly when \<open>p\<close> lies in \<open>[j, j + 1)\<close>, and so for every
  draw \<open>v\<close> with \<open>j + d \<le> 7 v < j + 1 - d\<close>, where \<open>d\<close> bounds the rounding error of the
  product; otherwise the type is normal.
\<close>

theorem selectBalloonType_draw:
  assumes "0 \<le> double_times rt (Math_random rt (k + 1)) 7"
    and "double_times rt (Math_random rt (k + 1)) 7 < 7"
  shows "(Math_random rt k < bc \<longrightarrow> fst (selectBalloonType rt k bc pc) = Bomb)
       \<and> (\<not> Math_random rt k < bc \<and> Math_random rt k < double_plus rt bc pc \<longrightarrow>
            fst (selectBalloonType rt k bc pc) \<in>
              {PowerUpBalloon Slow, PowerUpBalloon Multiplier, PowerUpBalloon Freeze,
               PowerUpBalloon Magnet, PowerUpBalloon Defuser, Heart, Special}
            \<and> (\<forall>j < 7. fst (selectBalloonType rt k bc pc) = powerupTypes ! j \<longleftrightarrow>
                   real j \<le> double_times rt (Math_random rt (k + 1)) 7
                   \<and> double_times rt (Math_random rt (k + 1)) 7 < real j + 1)
            \<and> (\<forall>j < 7. \<forall>d.
                   \<bar>double_times rt (Math_random rt (k + 1)) 7 - Math_random rt (k + 1) * 7\<bar> \<le> d
                   \<and> real j + d \<le> Math_random rt (k + 1) * 7
                   \<and> Math_random rt (k + 1) * 7 < real j + 1 - d \<longrightarrow>
                   fst (selectBalloonType rt k bc pc) = powerupTypes ! j))
       \<and> (\<not> Math_random rt k < bc \<and> \<not> Math_random rt k < double_plus rt bc pc \<longrightarrow>
            fst (selectBalloonType rt k bc pc) = Normal)"
proof -
  let ?v = "Math_random rt (k + 1)"
  let ?p = "double_times rt ?v 7"
  let ?i = "nat \<lfloor>?p\<rfloor>"
  from assms(2) have "\<lfloor>?p\<rfloor> < 7" by (simp add: floor_less_iff)
  then have lt: "?i < 7" by arith
  have len: "length powerupTypes = 7" by (simp add: powerupTypes_def)
  have mem: "powerupTypes ! ?i \<in> set powerupTypes" using lt len by simp
  have iff: "powerupTypes ! ?i = powerupTypes ! j \<longleftrightarrow> real j \<le> ?p \<and> ?p < real j + 1"
    if "j < 7" for j
    using that lt len distinct_powerupTypes floor_index [OF assms(1), of j]
    by (simp add: nth_eq_iff_index_eq)
  have near: "powerupTypes ! ?i = powerupTypes ! j"
    if "j < 7" "\<bar>?p - ?v * 7\<bar> \<le> d" "real j + d \<le> ?v * 7" "?v * 7 < real j + 1 - d" for j d
  proof -
    from that(2,3,4) have "real j \<le> ?p \<and> ?p < real j + 1" by linarith
    with iff [OF that(1)] show ?thesis by simp
  qed
  have set: "set powerupTypes =
               {PowerUpBalloon Slow, PowerUpBalloon Multiplier, PowerUpBalloon Freeze,
                PowerUpBalloon Magnet, PowerUpBalloon Defuser, Heart, Special}"
    by (simp add: powerupTypes_def)
  have bomb: "fst (selectBalloonType rt k bc pc) = Bomb" if "Math_random rt k < bc"
    using that by (simp add: selectBalloonType_def)
  have normal: "fst (selectBalloonType rt k bc pc) = Normal"
    if "\<not> Math_random rt k < bc" "\<not> Math_random rt k < double_plus rt bc pc"
    using that by (simp add: selectBalloonType_def)
  have pick: "fst (selectBalloonType rt k bc pc) = powerupTypes ! ?i"
    if "\<not> Math_random rt k < bc" "Math_random rt k < double_plus rt bc pc"
    using that by (simp add: selectBalloonType_def len)
  have powerup: "fst (selectBalloonType rt k bc pc) \<in>
              {PowerUpBalloon Slow, PowerUpBalloon Multiplier, PowerUpBalloon Freeze,
               PowerUpBalloon Magnet, PowerUpBalloon Defuser, Heart, Special}
            \<and> (\<forall>j < 7. fst (selectBalloonType rt k bc pc) = powerupTypes ! j \<longleftrightarrow>
                   real j \<le> ?p \<and> ?p < real j + 1)
            \<and> (\<forall>j < 7. \<forall>d. \<bar>?p - ?v * 7\<bar> \<le> d \<and> real j + d \<le> ?v * 7
                   \<and> ?v * 7 < real j + 1 - d \<longrightarrow>
                   fst (selectBalloonType rt k bc pc) = powerupTypes ! j)"
    if "\<not> Math_random rt k < bc" "Math_random rt k < double_plus rt bc pc"
    unfolding pick [OF that] using mem iff near unfolding set by blast
  from bomb normal powerup show ?thesis by blast
qed

theorem selectBalloonType_draw_witness:
  "0 \<le> double_times rt_draws (Math_random rt_draws 1) 7
   \<and> double_times rt_draws (Math_random rt_draws 1) 7 < 7
   \<and> \<not> Math_random rt_draws 0 < 0.05 \<and> Math_random rt_draws 0 < double_plus rt_draws 0.05 0.05
   \<and> real 5 \<le> double_times rt_draws (Math_random rt_draws 1) 7
   \<and> double_times rt_draws (Math_random rt_draws 1) 7 < real 5 + 1
   \<and> fst (selectBalloonType rt_draws 0 0.05 0.05) = Heart
   \<and> 0 \<le> double_times rt_draws (Math_random rt_draws 3) 7
   \<and> double_times rt_draws (Math_random rt_draws 3) 7 < 7
   \<and> Math_random rt_draws 2 < 0.05
   \<and> fst (selectBalloonType rt_draws 2 0.05 0.05) = Bomb
   \<and> 0 \<le> double_times rt_draws (Math_random rt_draws 2) 7
   \<and> double_times rt_draws (Math_random rt_draws 2) 7 < 7
   \<and> \<not> Math_random rt_draws 1 < 0.05 \<and> \<not> Math_random rt_draws 1 < double_plus rt_draws 0.05 0.05
   \<and> fst (selectBalloonType rt_draws 1 0.05 0.05) = Normal"
proof -
  have r: "Math_random rt_draws n = (if n = 0 then 0.07 else if n = 1 then 0.8 else 0.01)"
    "double_times rt_draws x y = x * y" "double_plus rt_draws x y = x + y" for n x y
    by (simp_all add: rt_draws_def)
  have h0: "0 \<le> double_times rt_draws (Math_random rt_draws (0 + 1)) 7"
           "double_times rt_draws (Math_random rt_draws (0 + 1)) 7 < 7"
    and h1: "0 \<le> double_times rt_draws (Math_random rt_draws (1 + 1)) 7"
            "double_times rt_draws (Math_random rt_draws (1 + 1)) 7 < 7"
    and h2: "0 \<le> double_times rt_draws (Math_random rt_draws (2 + 1)) 7"
            "double_times rt_draws (Math_random rt_draws (2 + 1)) 7 < 7"
    by (simp_all add: r)
  have five: "(5::nat) < 7" by simp
  have "fst (selectBalloonType rt_draws 0 0.05 0.05) = powerupTypes ! 5 \<longleftrightarrow>
        real 5 \<le> double_times rt_draws (Math_random rt_draws 1) 7
        \<and> double_times rt_draws (Math_random rt_draws 1) 7 < real 5 + 1"
    using selectBalloonType_draw [OF h0, of "0.05" "0.05"] five by (simp add: r)
  then have a: "fst (selectBalloonType rt_draws 0 0.05 0.05) = Heart"
    by (simp add: r powerupTypes_def)
  have b: "fst (selectBalloonType rt_draws 2 0.05 0.05) = Bomb"
    using selectBalloonType_draw [OF h2, of "0.05" "0.05"] by (simp add: r)
  have c: "fst (selectBalloonType rt_draws 1 0.05 0.05) = Normal"
    using selectBalloonType_draw [OF h1, of "0.05" "0.05"] by (simp add: r)
  from a b c show ?thesis by (simp add: r)
qed

subsection \<open>The difficulty passed to startGame\<close>

lemma startGame_difficulty_ignored:
  "startGame rt d e = startGame rt Easy e"
  by (simp add: startGame_def updateDifficulty_def)

lemma mergeConfig_noConfig: "mergeConfig d noConfig = d"
  by (simp add: mergeConfig_def noConfig_def)

lemma rt0_simps:
  "performance_now rt0 n = 0" "Math_random rt0 n = 1 / 2"
  "double_times rt0 x y = x * y" "double_plus rt0 x y = x + y"
  by (simp_all add: rt0_def)

lemmas engine_defs =
  startGame_def updateDifficulty_def getCurrentDifficulty_def GameEngine_new_def
  resetGame_def withPowerUpManager_def clearAll_def PowerUpManager_new_def
  update_def spawnBalloons_def updateBalloons_def updateBalloons_body_def
  PowerUpManager_update_def ParticleSystem_update_def
  Balloon_create_def Balloon_new_def Balloon_update_def selectBalloonType_def
  isOffScreen_def isExpired_def isFreezeActive_def isMagnetActive_def isActive_def
  loseLife_def resetCombo_def GameEngine_gameOver_def pauseGame_def resumeGame_def
  splice1_def randomFloat_def run_def dims0_def mergeConfig_noConfig Let_def

text \<open>
  Claim C5: the code does not do what the claim says. \<open>updateDifficulty\<close> has an empty
  body and \<open>getCurrentDifficulty\<close> always answers easy, so a game started on hard spawns
  at the easy interval: with the default configuration, 300 ms after the start, which is
  past the hard interval of 250 ms, no balloon has been spawned.
\<close>

theorem startGame_hard_spawns_as_easy:
  "spawnRate (config (startGame rt0 Hard (GameEngine_new dims0 noConfig))) Hard = 250
   \<and> lastSpawnTime (startGame rt0 Hard (GameEngine_new dims0 noConfig)) = 0
   \<and> getCurrentDifficulty (startGame rt0 Hard (GameEngine_new dims0 noConfig)) = Easy
   \<and> balloons (update rt0 300 (startGame rt0 Hard (GameEngine_new dims0 noConfig))) = []
   \<and> startGame rt0 Hard (GameEngine_new dims0 noConfig)
       = startGame rt0 Easy (GameEngine_new dims0 noConfig)"
  by (simp add: engine_defs rt0_simps DEFAULT_GAME_CONFIG_def
      cong: let_weak_cong prod.case_cong_weak)

subsection \<open>The bounds of the lives\<close>

lemma rt_pause_simps:
  "Math_random rt_pause n = 1 / 2"
  "double_times rt_pause x y = x * y" "double_plus rt_pause x y = x + y"
  "performance_now rt_pause n =
     (if n < 2 then 0 else if n < 5 then 601 else if n < 10 then 1202
      else if n < 17 then 1803 else if n < 26 then 2404
      else if n < 27 then 60000 else 60016)"
  by (simp_all add: rt_pause_def)

text \<open>
  Claim C8, as stated, fails: \<open>loseLife\<close> decrements the lives whatever they are. In
  the session \<open>calls_pause\<close>, with the default configuration, four normal balloons are
  on the screen and the lives are three when the game is resumed; by then all four have
  outlived their lifespan, and the next \<open>update\<close> takes four lives.
\<close>

theorem lives_negative_after_pause:
  "running (state (run rt_pause calls_resumed (GameEngine_new dims0 noConfig)))
   \<and> lives (state (run rt_pause calls_resumed (GameEngine_new dims0 noConfig))) = 3
   \<and> map b_type (balloons (run rt_pause calls_resumed (GameEngine_new dims0 noConfig)))
       = [Normal, Normal, Normal, Normal]
   \<and> lives (state (run rt_pause calls_pause (GameEngine_new dims0 noConfig))) = - 1"
  by (simp add: calls_pause_def calls_resumed_def engine_defs rt_pause_simps
      DEFAULT_GAME_CONFIG_def cong: let_weak_cong prod.case_cong_weak)

lemma spawnBalloons_fields:
  "state (spawnBalloons rt currentTime e) = state e"
  "config (spawnBalloons rt currentTime e) = config e"
  by (simp_all add: spawnBalloons_def Let_def split: prod.splits)

lemma updateBalloons_body_bound:
  "config (updateBalloons_body rt deltaTime i e) = config e"
  "lives (state (updateBalloons_body rt deltaTime i e)) \<le> lives (state e)"
  by (simp_all add: updateBalloons_body_def Let_def loseLife_fields split: prod.splits)

lemma updateBalloons_loop_bound:
  "config (updateBalloons_loop rt deltaTime i e) = config e
   \<and> lives (state (updateBalloons_loop rt deltaTime i e)) \<le> lives (state e)"
proof (induction i arbitrary: e)
  case 0
  show ?case by simp
next
  case (Suc i)
  from Suc [of "updateBalloons_body rt deltaTime i e"]
       updateBalloons_body_bound [of rt deltaTime i e]
  show ?case by simp
qed

lemma GameEngine_gameOver_fields:
  "config (GameEngine_gameOver e) = config e"
  "lives (state (GameEngine_gameOver e)) = lives (state e)"
  "running (state (GameEngine_gameOver e)) = False"
  by (simp_all add: GameEngine_gameOver_def Let_def withPowerUpManager_fields
      withPowerUpManager_def split: prod.splits)

lemma update_bound:
  "config (update rt currentTime e) = config e"
  "lives (state (update rt currentTime e)) \<le> lives (state e)"
proof -
  have loop: "config (updateBalloons rt dt e') = config e'
              \<and> lives (state (updateBalloons rt dt e')) \<le> lives (state e')" for e' dt
    unfolding updateBalloons_def by (rule updateBalloons_loop_bound)
  have key: "lives (state (updateBalloons rt dt (spawnBalloons rt currentTime e'))) \<le> L"
    if "lives (state e') = L" for e' dt L
    using loop [of dt "spawnBalloons rt currentTime e'"] that
    by (simp add: spawnBalloons_fields)
  show "config (update rt currentTime e) = config e"
    by (simp add: update_def Let_def GameEngine_gameOver_fields withPowerUpManager_fields
        loop spawnBalloons_fields)
  show "lives (state (update rt currentTime e)) \<le> lives (state e)"
    by (simp add: update_def Let_def GameEngine_gameOver_fields withPowerUpManager_fields key)
qed

lemma update_running_lives:
  assumes "running (state (update rt currentTime e))"
  shows "0 < lives (state (update rt currentTime e))"
proof (cases "running (state e)")
  case False
  with assms show ?thesis by (simp add: update_def)
next
  case True
  with assms show ?thesis
    by (simp add: update_def Let_def GameEngine_gameOver_fields split: if_splits)
qed

lemma popBalloon_bound:
  "config (popBalloon rt balloon index ev e) = config e"
  "lives (state e) \<le> maxLives (config e) \<Longrightarrow>
     lives (state (popBalloon rt balloon index ev e)) \<le> maxLives (config e)"
  by (cases "b_type balloon";
      simp add: popBalloon_def Let_def incrementCombo_fields addScore_fields loseLife_fields
        gainLife_fields GameEngine_activatePowerUp_def withPowerUpManager_fields
        split: prod.splits)+

lemma handleInput_loop_bound:
  "config (snd (handleInput_loop rt ev i e)) = config e
   \<and> (lives (state e) \<le> maxLives (config e) \<longrightarrow>
        lives (state (snd (handleInput_loop rt ev i e))) \<le> maxLives (config e))"
  by (induction i) (simp_all add: Let_def popBalloon_bound)

lemma handleInput_bound:
  "config (handleInput rt ev e) = config e"
  "lives (state e) \<le> maxLives (config e) \<Longrightarrow>
     lives (state (handleInput rt ev e)) \<le> maxLives (config e)"
  using handleInput_loop_bound [of rt ev "length (balloons e)" e]
  by (auto simp add: handleInput_def resetCombo_def split: prod.splits)

lemma resetGame_fields:
  "config (resetGame e) = config e"
  "lives (state (resetGame e)) = maxLives (config e)"
  by (simp_all add: resetGame_def Let_def withPowerUpManager_fields)

lemma perform_bound:
  assumes "lives (state e) \<le> maxLives (config e)"
  shows "config (perform rt c e) = config e
       \<and> lives (state (perform rt c e)) \<le> maxLives (config e)"
proof (cases c)
  case (StartGame d)
  then show ?thesis
    by (simp add: startGame_def updateDifficulty_def Let_def resetGame_fields)
next
  case (Update currentTime)
  have "lives (state (update rt currentTime e)) \<le> lives (state e)"
    by (rule update_bound(2))
  with assms Update show ?thesis by (simp add: update_bound(1))
next
  case (HandleInput ev)
  with assms show ?thesis by (simp add: handleInput_bound)
next
  case PauseGame
  with assms show ?thesis by (simp add: pauseGame_def)
next
  case ResumeGame
  with assms show ?thesis by (simp add: resumeGame_def Let_def)
next
  case ResetGame
  then show ?thesis by (simp add: resetGame_fields)
qed

lemma run_bound:
  assumes "lives (state e) \<le> maxLives (config e)"
  shows "config (run rt calls e) = config e
       \<and> lives (state (run rt calls e)) \<le> maxLives (config e)"
  using assms
proof (induction calls arbitrary: e)
  case Nil
  then show ?case by (simp add: run_def)
next
  case (Cons c calls)
  from perform_bound [OF Cons.prems, of rt c]
  have p: "config (perform rt c e) = config e"
          "lives (state (perform rt c e)) \<le> maxLives (config (perform rt c e))"
    by simp_all
  from Cons.IH [OF p(2)] p(1) show ?case by (simp add: run_def)
qed

text \<open>
  Claim C8, amended. After any sequence of \<open>startGame\<close>, \<open>update\<close>, \<open>handleInput\<close>,
  \<open>pauseGame\<close>, \<open>resumeGame\<close> and \<open>resetGame\<close> calls on a new engine, the configuration
  is the one the engine was constructed with and the lives do not exceed its maximum;
  and whenever an \<open>update\<close> call returns with the game still running, the lives are
  positive. (Between two updates, and after a resume of an ended game, nothing keeps
  the lives from falling below 0.)
\<close>

theorem lives_at_most_maxLives:
  "config (run rt calls (GameEngine_new dims cfg)) = mergeConfig DEFAULT_GAME_CONFIG cfg
   \<and> lives (state (run rt calls (GameEngine_new dims cfg)))
       \<le> maxLives (mergeConfig DEFAULT_GAME_CONFIG cfg)
   \<and> (running (state (update rt currentTime (run rt calls (GameEngine_new dims cfg)))) \<longrightarrow>
        0 < lives (state (update rt currentTime (run rt calls (GameEngine_new dims cfg)))))"
proof -
  have init: "lives (state (GameEngine_new dims cfg)) \<le> maxLives (config (GameEngine_new dims cfg))"
             "config (GameEngine_new dims cfg) = mergeConfig DEFAULT_GAME_CONFIG cfg"
    by (simp_all add: GameEngine_new_def Let_def)
  from run_bound [OF init(1), of rt calls] init(2) update_running_lives
  show ?thesis by simp
qed

theorem lives_at_most_maxLives_witness:
  "running (state (update rt_pause 601 (run rt_pause [StartGame Easy] (GameEngine_new dims0 noConfig))))
   \<and> 0 < lives (state (update rt_pause 601 (run rt_pause [StartGame Easy] (GameEngine_new dims0 noConfig))))
   \<and> lives (state (run rt_pause [StartGame Easy] (GameEngine_new dims0 noConfig))) \<le> 3"
proof -
  have r: "running (state (update rt_pause 601
             (run rt_pause [StartGame Easy] (GameEngine_new dims0 noConfig))))"
    by (simp add: engine_defs rt_pause_simps DEFAULT_GAME_CONFIG_def
        cong: let_weak_cong prod.case_cong_weak)
  from lives_at_most_maxLives [of rt_pause "[StartGame Easy]" dims0 noConfig 601] r
  show ?thesis by (simp add: mergeConfig_noConfig DEFAULT_GAME_CONFIG_def)
qed

subsection \<open>The balloons a frame removes\<close>

lemma updateBalloons_body_round:
  assumes "balloons e = xs @ x # ys"
  shows "let moved = Balloon_update rt (clockReads e) deltaTime
                       (isFreezeActive (powerUpManager e)) (isActive (powerUpManager e) Slow)
                       (isMagnetActive (powerUpManager e))
                       (width (dimensions e)) (height (dimensions e)) x;
             balloon = fst moved;
             offScreen = isOffScreen balloon (height (dimensions e));
             expired = (\<not> offScreen \<and> isExpired (performance_now rt (snd moved)) balloon);
             e' = updateBalloons_body rt deltaTime (length xs) e
         in powerUpManager e' = powerUpManager e
          \<and> dimensions e' = dimensions e
          \<and> clockReads e' = (if offScreen then snd moved else Suc (snd moved))
          \<and> balloons e' = (if offScreen \<or> expired then xs @ ys else xs @ balloon # ys)
          \<and> lives (state e') =
              lives (state e)
                - (if \<not> offScreen \<and> expired \<and> b_type balloon \<noteq> Bomb \<and> b_type balloon \<noteq> Heart
                   then 1 else 0)"
proof -
  from assms have nth: "balloons e ! length xs = x" by simp
  from assms have upd: "(balloons e)[length xs := b] = xs @ b # ys" for b by simp
  have spl: "splice1 (length xs) (xs @ b # ys) = xs @ ys" for b
    by (simp add: splice1_def)
  show ?thesis
    by (simp add: updateBalloons_body_def Let_def nth upd spl loseLife_def resetCombo_def
        split: prod.splits)
qed


lemma updateBalloons_loop_rounds:
  assumes "balloons e = xs @ ys"
  shows "balloons (updateBalloons_loop rt deltaTime (length xs) e) =
           rev (map fst (filter (\<lambda>(b, offScreen, expired). \<not> offScreen \<and> \<not> expired)
             (updateBalloons_rounds rt deltaTime (powerUpManager e) (dimensions e)
                (clockReads e) (rev xs)))) @ ys
       \<and> lives (state (updateBalloons_loop rt deltaTime (length xs) e)) =
           lives (state e) - int (length (filter
             (\<lambda>(b, offScreen, expired).
                \<not> offScreen \<and> expired \<and> b_type b \<noteq> Bomb \<and> b_type b \<noteq> Heart)
             (updateBalloons_rounds rt deltaTime (powerUpManager e) (dimensions e)
                (clockReads e) (rev xs))))"
  using assms
proof (induction xs arbitrary: e ys rule: rev_induct)
  case Nil
  then show ?case by simp
next
  case (snoc x xs)
  let ?e' = "updateBalloons_body rt deltaTime (length xs) e"
  from snoc.prems have b: "balloons e = xs @ x # ys" by simp
  note round = updateBalloons_body_round [OF b, of rt deltaTime, unfolded Let_def]
  show ?case
  proof (cases "balloons ?e' = xs @ ys")
    case True
    from snoc.IH [OF True] round True show ?thesis
      by (simp add: Let_def split: if_splits)
  next
    case False
    with round have kept: "balloons ?e' = xs @ (fst (Balloon_update rt (clockReads e) deltaTime
                       (isFreezeActive (powerUpManager e)) (isActive (powerUpManager e) Slow)
                       (isMagnetActive (powerUpManager e))
                       (width (dimensions e)) (height (dimensions e)) x) # ys)"
      by (simp split: if_splits)
    from snoc.IH [OF kept] round False show ?thesis
      by (simp add: Let_def split: if_splits)
  qed
qed


lemma updateBalloons_rounds_length:
  "length (updateBalloons_rounds rt deltaTime m d c bs) = length bs"
  by (induction bs arbitrary: c) (simp_all add: Let_def)

lemma spawnBalloons_frame:
  "state (spawnBalloons rt currentTime e) = state e"
  "powerUpManager (spawnBalloons rt currentTime e) = powerUpManager e"
  "dimensions (spawnBalloons rt currentTime e) = dimensions e"
  "comboCount (spawnBalloons rt currentTime e) = comboCount e"
  "comboTimer (spawnBalloons rt currentTime e) = comboTimer e"
  "balloons (spawnBalloons rt currentTime e) = balloons e
   \<or> (\<exists>b. balloons (spawnBalloons rt currentTime e) = balloons e @ [b])"
  by (simp_all add: spawnBalloons_def Let_def split: prod.splits)

lemma update_after_updateBalloons:
  assumes "running (state e)"
  shows "\<exists>dt e3. state e3 = state e
            \<and> powerUpManager e3 = powerUpManager e
            \<and> dimensions e3 = dimensions e
            \<and> (balloons e3 = balloons e \<or> (\<exists>b. balloons e3 = balloons e @ [b]))
            \<and> balloons (update rt currentTime e) = balloons (updateBalloons rt dt e3)
            \<and> lives (state (update rt currentTime e)) =
                lives (state (updateBalloons rt dt e3))"
proof -
  let ?dt = "(currentTime - lastUpdateTime e) / 1000"
  let ?e1 = "e\<lparr>lastUpdateTime := currentTime\<rparr>"
  let ?e2 = "if comboTimer ?e1 > 0 then
               let e1a = ?e1\<lparr>comboTimer := comboTimer ?e1 - ?dt\<rparr>
               in if comboTimer e1a \<le> 0 then e1a\<lparr>comboCount := 0\<rparr> else e1a
             else ?e1"
  let ?e3 = "spawnBalloons rt currentTime ?e2"
  have e2: "state ?e2 = state e" "powerUpManager ?e2 = powerUpManager e"
           "dimensions ?e2 = dimensions e" "balloons ?e2 = balloons e"
    by (simp_all add: Let_def)
  have bs: "balloons ?e3 = balloons e \<or> (\<exists>b. balloons ?e3 = balloons e @ [b])"
    using spawnBalloons_frame(6) [of rt currentTime ?e2] e2(4) by simp
  have upd: "balloons (update rt currentTime e) = balloons (updateBalloons rt ?dt ?e3)"
            "lives (state (update rt currentTime e)) = lives (state (updateBalloons rt ?dt ?e3))"
    using assms
    by (simp_all add: update_def Let_def GameEngine_gameOver_def withPowerUpManager_def
        split: prod.splits)
  show ?thesis
    by (rule exI [of _ ?dt], rule exI [of _ ?e3])
       (simp only: spawnBalloons_frame e2 bs upd simp_thms)
qed

text \<open>
  Claim C1. In \<open>updateBalloons\<close> every balloon is visited once, last first, and moved.
  The balloons left are those that, as moved, are neither above the top edge
  (\<open>y < - r\<close>) nor older than their lifespan; the lives fall by the number of balloons
  that are not above the top edge, are older than their lifespan and are neither bomb nor
  heart. So a balloon removed above the top edge costs no life, and one removed for its
  age while not above the top edge costs exactly one, unless it is a bomb or a heart.
  A call of \<open>update\<close> on a running engine changes the balloons and the lives only through
  \<open>updateBalloons\<close>, run for the duration of the frame on the engine after the spawn.
\<close>

theorem updateBalloons_penalty:
  "length (updateBalloons_rounds rt deltaTime (powerUpManager e) (dimensions e)
             (clockReads e) (rev (balloons e))) = length (balloons e)
   \<and> balloons (updateBalloons rt deltaTime e) =
       rev (map fst (filter (\<lambda>(b, offScreen, expired). \<not> offScreen \<and> \<not> expired)
         (updateBalloons_rounds rt deltaTime (powerUpManager e) (dimensions e)
            (clockReads e) (rev (balloons e)))))
   \<and> lives (state (updateBalloons rt deltaTime e)) =
       lives (state e) - int (length (filter
         (\<lambda>(b, offScreen, expired).
            \<not> offScreen \<and> expired \<and> b_type b \<noteq> Bomb \<and> b_type b \<noteq> Heart)
         (updateBalloons_rounds rt deltaTime (powerUpManager e) (dimensions e)
            (clockReads e) (rev (balloons e)))))
   \<and> (running (state e) \<longrightarrow>
        (\<exists>dt e3. state e3 = state e
            \<and> powerUpManager e3 = powerUpManager e
            \<and> dimensions e3 = dimensions e
            \<and> (balloons e3 = balloons e \<or> (\<exists>b. balloons e3 = balloons e @ [b]))
            \<and> balloons (update rt currentTime e) = balloons (updateBalloons rt dt e3)
            \<and> lives (state (update rt currentTime e)) =
                lives (state (updateBalloons rt dt e3))))"
proof -
  have "balloons e = balloons e @ []" by simp
  from updateBalloons_loop_rounds [OF this, of rt deltaTime]
  have loop: "balloons (updateBalloons rt deltaTime e) =
       rev (map fst (filter (\<lambda>(b, offScreen, expired). \<not> offScreen \<and> \<not> expired)
         (updateBalloons_rounds rt deltaTime (powerUpManager e) (dimensions e)
            (clockReads e) (rev (balloons e)))))
   \<and> lives (state (updateBalloons rt deltaTime e)) =
       lives (state e) - int (length (filter
         (\<lambda>(b, offScreen, expired).
            \<not> offScreen \<and> expired \<and> b_type b \<noteq> Bomb \<and> b_type b \<noteq> Heart)
         (updateBalloons_rounds rt deltaTime (powerUpManager e) (dimensions e)
            (clockReads e) (rev (balloons e)))))"
    by (simp add: updateBalloons_def)
  from loop update_after_updateBalloons [of e rt currentTime]
  show ?thesis by (simp add: updateBalloons_rounds_length)
qed

lemma engine_cull_fields:
  "balloons engine_cull =
     [balloon0 Normal 0 (- 100), balloon0 Normal 0 300, balloon0 Heart 0 300,
      balloon0 Normal 59000 300]"
  "powerUpManager engine_cull = []"
  "dimensions engine_cull = dims0"
  "clockReads engine_cull = 0"
  "lives (state engine_cull) = 3"
  by (simp_all add: engine_cull_def GameEngine_new_def PowerUpManager_new_def Let_def)

lemma rt_late_simps:
  "performance_now rt_late n = 60000" "Math_random rt_late n = 1 / 2"
  "double_times rt_late x y = x * y" "double_plus rt_late x y = x + y"
  by (simp_all add: rt_late_def)

theorem updateBalloons_penalty_witness:
  "running (state engine_cull)
   \<and> lives (state engine_cull) = 3
   \<and> map snd (updateBalloons_rounds rt_late (2 / 125) (powerUpManager engine_cull)
        (dimensions engine_cull) (clockReads engine_cull) (rev (balloons engine_cull)))
       = [(False, False), (False, True), (False, True), (True, False)]
   \<and> map b_type (balloons engine_cull) = [Normal, Normal, Heart, Normal]
   \<and> lives (state (updateBalloons rt_late (2 / 125) engine_cull)) = 2
   \<and> length (balloons (updateBalloons rt_late (2 / 125) engine_cull)) = 1
   \<and> lives (state (update rt_late 16 engine_cull)) = 2
   \<and> length (balloons (update rt_late 16 engine_cull)) = 1"
proof -
  let ?rs = "updateBalloons_rounds rt_late (2 / 125) (powerUpManager engine_cull)
        (dimensions engine_cull) (clockReads engine_cull) (rev (balloons engine_cull))"
  have run: "running (state engine_cull)"
    by (simp add: engine_cull_def)
  have rounds:
    "(let rs = ?rs
      in (map snd rs,
          length (filter (\<lambda>(b, offScreen, expired).
              \<not> offScreen \<and> expired \<and> b_type b \<noteq> Bomb \<and> b_type b \<noteq> Heart) rs),
          length (filter (\<lambda>(b, offScreen, expired). \<not> offScreen \<and> \<not> expired) rs)))
     = ([(False, False), (False, True), (False, True), (True, False)], 1, 1)"
    by (simp add: engine_cull_fields balloon0_def dims0_def rt_late_simps
        Balloon_update_def isOffScreen_def isExpired_def isFreezeActive_def isMagnetActive_def
        isActive_def Let_def cong: let_weak_cong prod.case_cong_weak)
  then have flags: "map snd ?rs = [(False, False), (False, True), (False, True), (True, False)]"
    and pen: "length (filter (\<lambda>(b, offScreen, expired).
              \<not> offScreen \<and> expired \<and> b_type b \<noteq> Bomb \<and> b_type b \<noteq> Heart) ?rs) = 1"
    and kept: "length (filter (\<lambda>(b, offScreen, expired). \<not> offScreen \<and> \<not> expired) ?rs) = 1"
    by (simp_all only: Let_def prod.inject simp_thms)
  have "(let e = update rt_late 16 engine_cull
         in (lives (state e), length (balloons e))) = (2, 1)"
    by (simp add: engine_cull_def balloon0_def engine_defs rt_late_simps
        DEFAULT_GAME_CONFIG_def cong: let_weak_cong prod.case_cong_weak)
  then have upd: "lives (state (update rt_late 16 engine_cull)) = 2"
            "length (balloons (update rt_late 16 engine_cull)) = 1"
    by (simp_all only: Let_def prod.inject simp_thms)
  note inst = updateBalloons_penalty [of rt_late "2 / 125" engine_cull 16]
  from inst have "lives (state (updateBalloons rt_late (2 / 125) engine_cull)) =
      lives (state engine_cull) - int (length (filter (\<lambda>(b, offScreen, expired).
              \<not> offScreen \<and> expired \<and> b_type b \<noteq> Bomb \<and> b_type b \<noteq> Heart) ?rs))"
    by blast
  then have l: "lives (state (updateBalloons rt_late (2 / 125) engine_cull)) = 2"
    unfolding pen by (simp add: engine_cull_fields(5))
  from inst have "balloons (updateBalloons rt_late (2 / 125) engine_cull) =
      rev (map fst (filter (\<lambda>(b, offScreen, expired). \<not> offScreen \<and> \<not> expired) ?rs))"
    by blast
  then have "length (balloons (updateBalloons rt_late (2 / 125) engine_cull)) =
      length (filter (\<lambda>(b, offScreen, expired). \<not> offScreen \<and> \<not> expired) ?rs)"
    by (simp only: length_rev length_map)
  then have k: "length (balloons (updateBalloons rt_late (2 / 125) engine_cull)) = 1"
    unfolding kept .
  have types: "map b_type (balloons engine_cull) = [Normal, Normal, Heart, Normal]"
    by (simp add: engine_cull_fields(1) balloon0_def)
  from run engine_cull_fields(5) flags types l k upd show ?thesis by blast
qed

subsection \<open>Five normal balloons in a row\<close>

lemma rt_streak_simps:
  "Math_random rt_streak n = 1 / 2"
  "double_times rt_streak x y = x * y" "double_plus rt_streak x y = x + y"
  "performance_now rt_streak n =
     (if n < 2 then 0 else if n < 5 then 601 else if n < 10 then 1202
      else if n < 11 then 60000 else if n < 16 then 60016
      else if n < 19 then 60617 else if n < 22 then 61218 else 61819)"
  by (simp_all add: rt_streak_def)

lemma containsPoint_iff:
  "containsPoint b x y \<longleftrightarrow>
     0 \<le> b_r b \<and> (x - b_x b) * (x - b_x b) + (y - b_y b) * (y - b_y b) \<le> b_r b * b_r b"
proof -
  let ?a = "(x - b_x b)\<^sup>2 + (y - b_y b)\<^sup>2"
  have a: "0 \<le> ?a" by simp
  have "sqrt ?a \<le> b_r b \<longleftrightarrow> 0 \<le> b_r b \<and> ?a \<le> (b_r b)\<^sup>2"
  proof
    assume le: "sqrt ?a \<le> b_r b"
    have "0 \<le> sqrt ?a" using a by simp
    with le have "0 \<le> b_r b" by linarith
    moreover from le have "?a \<le> (b_r b)\<^sup>2" by (rule sqrt_le_D)
    ultimately show "0 \<le> b_r b \<and> ?a \<le> (b_r b)\<^sup>2" by simp
  next
    assume "0 \<le> b_r b \<and> ?a \<le> (b_r b)\<^sup>2"
    then show "sqrt ?a \<le> b_r b" by (simp add: real_le_lsqrt)
  qed
  then show ?thesis by (simp add: containsPoint_def Let_def power2_eq_square)
qed

lemmas session_defs =
  startGame_def updateDifficulty_def getCurrentDifficulty_def GameEngine_new_def
  resetGame_def withPowerUpManager_def clearAll_def PowerUpManager_new_def
  update_def spawnBalloons_def updateBalloons_def updateBalloons_body_def
  PowerUpManager_update_def
  Balloon_create_def Balloon_new_def Balloon_update_def selectBalloonType_def
  isOffScreen_def isExpired_def isFreezeActive_def isMagnetActive_def isActive_def
  loseLife_def resetCombo_def GameEngine_gameOver_def pauseGame_def resumeGame_def
  splice1_def randomFloat_def run_def dims0_def mergeConfig_noConfig Let_def
  handleInput_def popBalloon_def getPoints_def addScore_def incrementCombo_def
  getScoreMultiplier_def containsPoint_iff ev_tap_def case_prod_beta
  DEFAULT_GAME_CONFIG_def

lemma streak_before_taps:
  "(let e = run rt_streak calls_before_taps (GameEngine_new dims0 noConfig)
    in (score (state e), comboCount e, powerUpManager e)) = (0, 0, [])"
  by (simp add: calls_before_taps_def session_defs rt_streak_simps
      cong: let_weak_cong prod.case_cong_weak)

lemma streak_first_tap:
  "(let e = run rt_streak calls_first_tap (GameEngine_new dims0 noConfig)
    in (comboCount e, comboTimer e, lastUpdateTime e, lives (state e))) = (1, 1, 60000, 3)"
  by (simp add: calls_first_tap_def calls_before_taps_def session_defs rt_streak_simps
      cong: let_weak_cong prod.case_cong_weak)

lemma streak_first_frame:
  "(let e = run rt_streak calls_first_frame (GameEngine_new dims0 noConfig)
    in (comboCount e, lives (state e))) = (0, 2)"
  by (simp add: calls_first_frame_def calls_first_tap_def calls_before_taps_def session_defs
      rt_streak_simps cong: let_weak_cong prod.case_cong_weak)

lemma streak_end:
  "(let e = run rt_streak calls_streak (GameEngine_new dims0 noConfig)
    in (length (filter isNormalPop (events e)), score (state e), comboCount e)) = (5, 95, 4)"
  by (simp add: calls_streak_def calls_first_frame_def calls_first_tap_def
      calls_before_taps_def session_defs rt_streak_simps
      cong: let_weak_cong prod.case_cong_weak)

text \<open>
  Claim C4, as stated, fails: a life lost between two pops resets the combo although
  its timeout has not elapsed. In the session \<open>calls_streak\<close>, with the default
  configuration, five normal balloons are popped from score 0 and combo 0 with no
  power-up active, each at most 601 ms after the one before, against a timeout of
  1000 ms; the frame 16 ms after the first pop removes a balloon that outlived its
  lifespan during the pause, which takes a life and with it the combo.
\<close>

theorem combo_reset_between_pops:
  "score (state (run rt_streak calls_before_taps (GameEngine_new dims0 noConfig))) = 0
   \<and> comboCount (run rt_streak calls_before_taps (GameEngine_new dims0 noConfig)) = 0
   \<and> powerUpManager (run rt_streak calls_before_taps (GameEngine_new dims0 noConfig)) = []
   \<and> comboCount (run rt_streak calls_first_tap (GameEngine_new dims0 noConfig)) = 1
   \<and> comboTimer (run rt_streak calls_first_tap (GameEngine_new dims0 noConfig)) = 1
   \<and> lastUpdateTime (run rt_streak calls_first_tap (GameEngine_new dims0 noConfig)) = 60000
   \<and> lives (state (run rt_streak calls_first_tap (GameEngine_new dims0 noConfig))) = 3
   \<and> comboCount (run rt_streak calls_first_frame (GameEngine_new dims0 noConfig)) = 0
   \<and> lives (state (run rt_streak calls_first_frame (GameEngine_new dims0 noConfig))) = 2
   \<and> length (filter isNormalPop
         (events (run rt_streak calls_streak (GameEngine_new dims0 noConfig)))) = 5
   \<and> score (state (run rt_streak calls_streak (GameEngine_new dims0 noConfig))) = 95
   \<and> comboCount (run rt_streak calls_streak (GameEngine_new dims0 noConfig)) = 4"
  using streak_before_taps streak_first_tap streak_first_frame streak_end
  by (simp only: Let_def prod.inject simp_thms)

lemma updateBalloons_body_quiet:
  "score (state (updateBalloons_body rt deltaTime i e)) = score (state e)"
  "powerUpManager (updateBalloons_body rt deltaTime i e) = powerUpManager e"
  "lives (state (updateBalloons_body rt deltaTime i e)) = lives (state e) \<Longrightarrow>
     comboCount (updateBalloons_body rt deltaTime i e) = comboCount e"
  "lives (state (updateBalloons_body rt deltaTime i e)) = lives (state e) \<Longrightarrow>
     comboTimer (updateBalloons_body rt deltaTime i e) = comboTimer e"
  by (auto simp add: updateBalloons_body_def Let_def loseLife_def resetCombo_def
      split: prod.splits if_splits)

lemma updateBalloons_loop_quiet:
  "score (state (updateBalloons_loop rt deltaTime i e)) = score (state e)
   \<and> powerUpManager (updateBalloons_loop rt deltaTime i e) = powerUpManager e
   \<and> (lives (state (updateBalloons_loop rt deltaTime i e)) = lives (state e) \<longrightarrow>
        comboCount (updateBalloons_loop rt deltaTime i e) = comboCount e
        \<and> comboTimer (updateBalloons_loop rt deltaTime i e) = comboTimer e)"
proof (induction i arbitrary: e)
  case 0
  show ?case by simp
next
  case (Suc i)
  let ?b = "updateBalloons_body rt deltaTime i e"
  have le1: "lives (state (updateBalloons_loop rt deltaTime i ?b)) \<le> lives (state ?b)"
    using updateBalloons_loop_bound [of rt deltaTime i ?b] by simp
  have le2: "lives (state ?b) \<le> lives (state e)"
    by (rule updateBalloons_body_bound(2))
  have combo: "comboCount (updateBalloons_loop rt deltaTime i ?b) = comboCount e
               \<and> comboTimer (updateBalloons_loop rt deltaTime i ?b) = comboTimer e"
    if "lives (state (updateBalloons_loop rt deltaTime i ?b)) = lives (state e)"
  proof -
    from that le1 le2 have eq: "lives (state ?b) = lives (state e)"
      "lives (state (updateBalloons_loop rt deltaTime i ?b)) = lives (state ?b)"
      by simp_all
    from Suc [of ?b] eq(2) updateBalloons_body_quiet(3,4) [OF eq(1)] show ?thesis by simp
  qed
  from Suc [of ?b] combo show ?case
    by (simp add: updateBalloons_body_quiet)
qed

lemma map_of_aged:
  "map_of (map (\<lambda>(ty, powerUp). (ty, f powerUp)) m) k = map_option f (map_of m k)"
  by (induction m) auto

lemma map_of_foldl_delete:
  "map_of (foldl (\<lambda>al ty. AList.delete ty al) al ks) k =
     (if k \<in> set ks then None else map_of al k)"
  by (induction ks arbitrary: al) (auto simp add: AList.delete_conv)

lemma PowerUpManager_update_isActive:
  assumes "isActive (fst (PowerUpManager_update deltaTime m)) ty"
  shows "isActive m ty"
proof -
  from assms obtain p where
    p: "map_option (agePowerUp deltaTime) (map_of m ty) = Some p" "active p"
    by (auto simp add: isActive_def PowerUpManager_update_def Let_def map_of_foldl_delete
        map_of_aged split: option.splits if_splits)
  then obtain q where q: "map_of m ty = Some q" "p = agePowerUp deltaTime q"
    by auto
  from p(2) q(2) have "active q"
    by (simp add: agePowerUp_def Let_def split: if_splits)
  with q(1) show ?thesis by (simp add: isActive_def)
qed

lemma update_quiet:
  assumes "0 < comboTimer e \<longrightarrow> 0 < comboTimer (update rt currentTime e)"
    and "lives (state (update rt currentTime e)) = lives (state e)"
  shows "score (state (update rt currentTime e)) = score (state e)"
    and "comboCount (update rt currentTime e) = comboCount e"
    and "\<not> isActive (powerUpManager e) ty \<Longrightarrow>
           \<not> isActive (powerUpManager (update rt currentTime e)) ty"
proof -
  let ?dt = "(currentTime - lastUpdateTime e) / 1000"
  let ?e1 = "e\<lparr>lastUpdateTime := currentTime\<rparr>"
  let ?e2 = "if comboTimer ?e1 > 0 then
               let e1a = ?e1\<lparr>comboTimer := comboTimer ?e1 - ?dt\<rparr>
               in if comboTimer e1a \<le> 0 then e1a\<lparr>comboCount := 0\<rparr> else e1a
             else ?e1"
  let ?e3 = "spawnBalloons rt currentTime ?e2"
  let ?e4 = "updateBalloons rt ?dt ?e3"
  have e3: "state ?e3 = state e" "powerUpManager ?e3 = powerUpManager e"
           "comboCount ?e3 = comboCount ?e2" "comboTimer ?e3 = comboTimer ?e2"
    by (simp_all add: spawnBalloons_frame Let_def)
  note loop = updateBalloons_loop_quiet [of rt ?dt "length (balloons ?e3)" ?e3,
                folded updateBalloons_def]
  show "score (state (update rt currentTime e)) = score (state e)"
  proof (cases "running (state e)")
    case False
    then show ?thesis by (simp add: update_def)
  next
    case True
    have "score (state (update rt currentTime e)) = score (state ?e4)"
      using True
      by (simp add: update_def Let_def GameEngine_gameOver_def withPowerUpManager_def
          split: prod.splits)
    with loop e3 show ?thesis by simp
  qed
  show "comboCount (update rt currentTime e) = comboCount e"
  proof (cases "running (state e)")
    case False
    then show ?thesis by (simp add: update_def)
  next
    case True
    have u: "comboCount (update rt currentTime e) = comboCount ?e4"
            "comboTimer (update rt currentTime e) = comboTimer ?e4"
            "lives (state (update rt currentTime e)) = lives (state ?e4)"
      using True
      by (simp_all add: update_def Let_def GameEngine_gameOver_def withPowerUpManager_def
          split: prod.splits)
    from u(3) assms(2) e3(1) have "lives (state ?e4) = lives (state ?e3)" by simp
    with loop have same: "comboCount ?e4 = comboCount ?e3" "comboTimer ?e4 = comboTimer ?e3"
      by simp_all
    have "comboTimer (update rt currentTime e) = comboTimer ?e2"
      using u(2) same(2) e3(4) by (simp only:)
    with assms(1) have timer: "0 < comboTimer e \<longrightarrow> 0 < comboTimer ?e2"
      by (simp only:)
    have "comboCount ?e2 = comboCount e"
    proof (cases "0 < comboTimer e")
      case False
      then show ?thesis by simp
    next
      case True
      with timer have "0 < comboTimer ?e2" by simp
      with True show ?thesis by (simp add: Let_def split: if_splits)
    qed
    with u(1) same(1) e3(3) show ?thesis by simp
  qed
  show "\<not> isActive (powerUpManager (update rt currentTime e)) ty"
    if no: "\<not> isActive (powerUpManager e) ty"
  proof (cases "running (state e)")
    case False
    with no show ?thesis by (simp add: update_def)
  next
    case True
    from loop e3(2) have m4: "powerUpManager ?e4 = powerUpManager e" by simp
    have "powerUpManager (update rt currentTime e) = []
          \<or> powerUpManager (update rt currentTime e)
               = fst (PowerUpManager_update ?dt (powerUpManager ?e4))"
      using True
      by (simp add: update_def Let_def GameEngine_gameOver_def withPowerUpManager_def
          clearAll_def split: prod.splits)
    then show ?thesis
    proof
      assume "powerUpManager (update rt currentTime e) = []"
      then show ?thesis by (simp add: isActive_def)
    next
      assume "powerUpManager (update rt currentTime e)
               = fst (PowerUpManager_update ?dt (powerUpManager ?e4))"
      with no m4 PowerUpManager_update_isActive [of ?dt "powerUpManager e" ty]
      show ?thesis by auto
    qed
  qed
qed

lemma frames_quiet:
  assumes "quietFrames rt ts e" and "\<not> isActive (powerUpManager e) Multiplier"
  shows "score (state (run rt (map Update ts) e)) = score (state e)
       \<and> comboCount (run rt (map Update ts) e) = comboCount e
       \<and> \<not> isActive (powerUpManager (run rt (map Update ts) e)) Multiplier"
  using assms
proof (induction ts arbitrary: e)
  case Nil
  then show ?case by (simp add: run_def)
next
  case (Cons t ts)
  from Cons.prems(1) have q:
    "0 < comboTimer e \<longrightarrow> 0 < comboTimer (update rt t e)"
    "lives (state (update rt t e)) = lives (state e)"
    "quietFrames rt ts (update rt t e)"
    by simp_all
  note u = update_quiet [OF q(1,2)]
  from Cons.IH [OF q(3) u(3) [OF Cons.prems(2)]] u(1,2)
  show ?case by (simp add: run_def)
qed

text \<open>A pop of a normal balloon and the quiet frames after it.\<close>

lemma pop_then_quiet_frames:
  assumes "\<not> isActive (powerUpManager e) Multiplier" and "b_type b = Normal"
    and "quietFrames rt ts (popBalloon rt b i ev e)"
  shows "score (state (run rt (map Update ts) (popBalloon rt b i ev e))) =
           score (state e) + 1 + (if comboCount e + 1 > 1 then (comboCount e + 1) * 10 else 0)"
    and "comboCount (run rt (map Update ts) (popBalloon rt b i ev e)) = comboCount e + 1"
    and "\<not> isActive (powerUpManager (run rt (map Update ts) (popBalloon rt b i ev e))) Multiplier"
proof -
  have m: "\<not> isActive (powerUpManager (popBalloon rt b i ev e)) Multiplier"
    using assms(1,2) by (simp add: popBalloon_normal)
  note f = frames_quiet [OF assms(3) m]
  from f assms(1,2)
  show "score (state (run rt (map Update ts) (popBalloon rt b i ev e))) =
           score (state e) + 1 + (if comboCount e + 1 > 1 then (comboCount e + 1) * 10 else 0)"
    by (simp add: popBalloon_normal getScoreMultiplier_def)
  from f assms(2)
  show "comboCount (run rt (map Update ts) (popBalloon rt b i ev e)) = comboCount e + 1"
    by (simp add: popBalloon_normal)
  from f
  show "\<not> isActive (powerUpManager (run rt (map Update ts) (popBalloon rt b i ev e))) Multiplier"
    by simp
qed

text \<open>
  Claim C4, amended. With no multiplier effect active, a pop of a normal balloon adds
  its point value 1 and, when the incremented combo count exceeds 1, that count times
  10. So from score 0 and combo 0, five such pops with, between them, only frames in
  which the combo timeout does not elapse and no life is lost yield score 145 and
  combo count 5.
\<close>

theorem five_normal_pops_quiet_frames:
  assumes "\<not> isActive (powerUpManager e) Multiplier"
    and "b_type b1 = Normal" and "b_type b2 = Normal" and "b_type b3 = Normal"
    and "b_type b4 = Normal" and "b_type b5 = Normal"
  shows "score (state (popBalloon rt b1 i1 ev1 e)) =
           score (state e) + 1 + (if comboCount e + 1 > 1 then (comboCount e + 1) * 10 else 0)
       \<and> comboCount (popBalloon rt b1 i1 ev1 e) = comboCount e + 1
       \<and> (let e1 = popBalloon rt b1 i1 ev1 e;
               e2 = popBalloon rt b2 i2 ev2 (run rt (map Update ts1) e1);
               e3 = popBalloon rt b3 i3 ev3 (run rt (map Update ts2) e2);
               e4 = popBalloon rt b4 i4 ev4 (run rt (map Update ts3) e3);
               e5 = popBalloon rt b5 i5 ev5 (run rt (map Update ts4) e4)
           in score (state e) = 0 \<and> comboCount e = 0
              \<and> quietFrames rt ts1 e1 \<and> quietFrames rt ts2 e2
              \<and> quietFrames rt ts3 e3 \<and> quietFrames rt ts4 e4 \<longrightarrow>
              score (state e5) = 145 \<and> comboCount e5 = 5)"
proof -
  let ?e1 = "popBalloon rt b1 i1 ev1 e"
  let ?f1 = "run rt (map Update ts1) ?e1"
  let ?e2 = "popBalloon rt b2 i2 ev2 ?f1"
  let ?f2 = "run rt (map Update ts2) ?e2"
  let ?e3 = "popBalloon rt b3 i3 ev3 ?f2"
  let ?f3 = "run rt (map Update ts3) ?e3"
  let ?e4 = "popBalloon rt b4 i4 ev4 ?f3"
  let ?f4 = "run rt (map Update ts4) ?e4"
  let ?e5 = "popBalloon rt b5 i5 ev5 ?f4"
  have first: "score (state ?e1) =
           score (state e) + 1 + (if comboCount e + 1 > 1 then (comboCount e + 1) * 10 else 0)"
    "comboCount ?e1 = comboCount e + 1"
    using assms(1,2) by (simp_all add: popBalloon_normal getScoreMultiplier_def)
  have streak: "score (state ?e5) = 145 \<and> comboCount ?e5 = 5"
    if start: "score (state e) = 0" "comboCount e = 0"
      and q: "quietFrames rt ts1 ?e1" "quietFrames rt ts2 ?e2"
             "quietFrames rt ts3 ?e3" "quietFrames rt ts4 ?e4"
  proof -
    note s1 = pop_then_quiet_frames [OF assms(1) assms(2) q(1)]
    note s2 = pop_then_quiet_frames [OF s1(3) assms(3) q(2)]
    note s3 = pop_then_quiet_frames [OF s2(3) assms(4) q(3)]
    note s4 = pop_then_quiet_frames [OF s3(3) assms(5) q(4)]
    have c: "comboCount ?f1 = 1" "comboCount ?f2 = 2" "comboCount ?f3 = 3" "comboCount ?f4 = 4"
      using s1(2) s2(2) s3(2) s4(2) start(2) by simp_all
    have s: "score (state ?f4) = 94"
      using s1(1) s2(1) s3(1) s4(1) start c by simp
    from s c(4) s4(3) assms(6) show ?thesis
      by (simp add: popBalloon_normal getScoreMultiplier_def)
  qed
  from first streak show ?thesis by (simp only: Let_def) blast
qed

lemma started_fields:
  "powerUpManager (startGame rt0 Easy (GameEngine_new dims0 noConfig)) = []"
  "score (state (startGame rt0 Easy (GameEngine_new dims0 noConfig))) = 0"
  "comboCount (startGame rt0 Easy (GameEngine_new dims0 noConfig)) = 0"
  by (simp_all add: engine_defs rt0_simps)

theorem five_normal_pops_quiet_frames_witness:
  "\<not> isActive (powerUpManager (startGame rt0 Easy (GameEngine_new dims0 noConfig))) Multiplier
   \<and> b_type (balloon0 Normal 0 300) = Normal
   \<and> score (state (startGame rt0 Easy (GameEngine_new dims0 noConfig))) = 0
   \<and> comboCount (startGame rt0 Easy (GameEngine_new dims0 noConfig)) = 0
   \<and> quietFrames rt0 [16]
        (popBalloon rt0 (balloon0 Normal 0 300) 0 ev0
          (startGame rt0 Easy (GameEngine_new dims0 noConfig)))
   \<and> score (state
        (popBalloon rt0 (balloon0 Normal 0 300) 0 ev0
          (popBalloon rt0 (balloon0 Normal 0 300) 0 ev0
            (popBalloon rt0 (balloon0 Normal 0 300) 0 ev0
              (popBalloon rt0 (balloon0 Normal 0 300) 0 ev0
                (run rt0 (map Update [16])
                  (popBalloon rt0 (balloon0 Normal 0 300) 0 ev0
                    (startGame rt0 Easy (GameEngine_new dims0 noConfig))))))))) = 145
   \<and> comboCount
        (popBalloon rt0 (balloon0 Normal 0 300) 0 ev0
          (popBalloon rt0 (balloon0 Normal 0 300) 0 ev0
            (popBalloon rt0 (balloon0 Normal 0 300) 0 ev0
              (popBalloon rt0 (balloon0 Normal 0 300) 0 ev0
                (run rt0 (map Update [16])
                  (popBalloon rt0 (balloon0 Normal 0 300) 0 ev0
                    (startGame rt0 Easy (GameEngine_new dims0 noConfig)))))))) = 5"
proof -
  let ?e = "startGame rt0 Easy (GameEngine_new dims0 noConfig)"
  let ?b = "balloon0 Normal 0 300"
  have ty: "b_type ?b = Normal"
    by (simp add: balloon0_def)
  have m: "\<not> isActive (powerUpManager ?e) Multiplier"
    by (simp add: started_fields isActive_def)
  have q: "quietFrames rt0 [16] (popBalloon rt0 ?b 0 ev0 ?e)"
    by (simp add: session_defs rt0_simps balloon0_def
        cong: let_weak_cong prod.case_cong_weak)
  have nil: "run rt0 (map Update []) x = x" "quietFrames rt0 [] x" for x
    by (simp_all add: run_def)
  from five_normal_pops_quiet_frames [OF m ty ty ty ty ty,
         of rt0 0 ev0 0 ev0 "[16]" 0 ev0 "[]" 0 ev0 "[]" 0 ev0 "[]"]
       q ty m started_fields(2,3)
  show ?thesis by (simp only: Let_def nil simp_thms)
qed

end
